theory Spec2Isabelle
  imports Complex_Main
begin

section \<open>JavaScript numbers\<close>

text \<open>
  The server computes with JavaScript numbers (IEEE 754 binary64). A number is either a
  finite value or \<open>NaN\<close>. Every arithmetic operator rounds the exact result to the nearest
  binary64 value, ties to even (\<open>rnd\<close>: 53 significant bits). The exponent range is not
  bounded here, so overflow to an infinity and subnormal rounding are outside the model;
  signed zeros are identified.
\<close>

datatype number = Num real | NaN

definition round_even :: "real \<Rightarrow> int" where
  "round_even x =
     (let f = \<lfloor>x\<rfloor>; d = x - of_int f
      in if d < 1/2 then f else if 1/2 < d then f + 1 else if even f then f else f + 1)"

definition rnd :: "real \<Rightarrow> real" where
  "rnd x =
     (if x = 0 then 0
      else (let e = \<lfloor>log 2 \<bar>x\<bar>\<rfloor> - 52
            in of_int (round_even (x / 2 powr (of_int e))) * 2 powr (of_int e)))"

fun fadd :: "number \<Rightarrow> number \<Rightarrow> number" where
  "fadd (Num x) (Num y) = Num (rnd (x + y))"
| "fadd _ _ = NaN"

fun fsub :: "number \<Rightarrow> number \<Rightarrow> number" where
  "fsub (Num x) (Num y) = Num (rnd (x - y))"
| "fsub _ _ = NaN"

fun fmul :: "number \<Rightarrow> number \<Rightarrow> number" where
  "fmul (Num x) (Num y) = Num (rnd (x * y))"
| "fmul _ _ = NaN"

text \<open>
  A division by zero gives an infinity or \<open>NaN\<close> in JavaScript. The program divides by
  the literals 2 and 180 and by \<open>yj - yi\<close>, the latter only behind a test that makes it
  non-zero, so the zero case is never reached; it is mapped to \<open>NaN\<close>.
\<close>

fun fdiv :: "number \<Rightarrow> number \<Rightarrow> number" where
  "fdiv (Num x) (Num y) = (if y = 0 then NaN else Num (rnd (x / y)))"
| "fdiv _ _ = NaN"

text \<open>Comparisons with \<open>NaN\<close> are false.\<close>

fun num_lt :: "number \<Rightarrow> number \<Rightarrow> bool" where
  "num_lt (Num x) (Num y) = (x < y)"
| "num_lt _ _ = False"

fun num_gt :: "number \<Rightarrow> number \<Rightarrow> bool" where
  "num_gt (Num x) (Num y) = (y < x)"
| "num_gt _ _ = False"

fun num_le :: "number \<Rightarrow> number \<Rightarrow> bool" where
  "num_le (Num x) (Num y) = (x \<le> y)"
| "num_le _ _ = False"

text \<open>
  The \<open>Math\<close> functions are implementation-approximated in ECMAScript; they are taken as
  the rounded exact value. \<open>Math.sqrt\<close> of a negative number is \<open>NaN\<close>.
\<close>

definition Math_PI :: number where
  "Math_PI = Num (rnd pi)"

fun Math_sin :: "number \<Rightarrow> number" where
  "Math_sin (Num x) = Num (rnd (sin x))"
| "Math_sin NaN = NaN"

fun Math_cos :: "number \<Rightarrow> number" where
  "Math_cos (Num x) = Num (rnd (cos x))"
| "Math_cos NaN = NaN"

fun Math_sqrt :: "number \<Rightarrow> number" where
  "Math_sqrt (Num x) = (if x < 0 then NaN else Num (rnd (sqrt x)))"
| "Math_sqrt NaN = NaN"

definition atan2 :: "real \<Rightarrow> real \<Rightarrow> real" where
  "atan2 y x =
     (if 0 < x then arctan (y / x)
      else if x < 0 then (if 0 \<le> y then arctan (y / x) + pi else arctan (y / x) - pi)
      else if 0 < y then pi / 2
      else if y < 0 then - (pi / 2)
      else 0)"

fun Math_atan2 :: "number \<Rightarrow> number \<Rightarrow> number" where
  "Math_atan2 (Num y) (Num x) = Num (rnd (atan2 y x))"
| "Math_atan2 _ _ = NaN"

section \<open>Geometry: \<open>isPointInGeofence\<close>, \<open>getDistance\<close>, \<open>toRad\<close>\<close>

record point =
  lat :: number
  lng :: number

text \<open>
  The \<open>coordinates\<close> column of a geofence holds a GeoJSON-like object. A position is the
  pair \<open>[c0, c1]\<close> of its first two entries (GeoJSON order: \<open>[lng, lat]\<close>). A polygon
  carries its list of rings, a point its position and an optional \<open>radius\<close>.
\<close>

type_synonym position = "real \<times> real"

datatype geojson =
    Polygon "position list list"
  | Point position "real option"
  | OtherGeometry

datatype error = TypeError | ZodError | DbError

definition toRad :: "number \<Rightarrow> number" where
  "toRad deg = fmul deg (fdiv Math_PI (Num 180))"

definition getDistance :: "point \<Rightarrow> point \<Rightarrow> number" where
  "getDistance point1 point2 =
     (let R = Num 6371000;
          dLat = toRad (fsub (lat point2) (lat point1));
          dLon = toRad (fsub (lng point2) (lng point1));
          lat1 = toRad (lat point1);
          lat2 = toRad (lat point2);
          a = fadd (fmul (Math_sin (fdiv dLat (Num 2))) (Math_sin (fdiv dLat (Num 2))))
                   (fmul (fmul (fmul (Math_sin (fdiv dLon (Num 2))) (Math_sin (fdiv dLon (Num 2))))
                               (Math_cos lat1))
                         (Math_cos lat2));
          c = fmul (Num 2) (Math_atan2 (Math_sqrt a) (Math_sqrt (fsub (Num 1) a)))
      in fmul R c)"

text \<open>
  The condition of the \<open>if\<close> in the polygon loop, for the vertices \<open>coordinates[i]\<close> and
  \<open>coordinates[j]\<close>: \<open>xi = coordinates[i][1]\<close>, \<open>yi = coordinates[i][0]\<close>. The source's
  \<open>&&\<close> does not evaluate the division when the first test fails; the conjunction is
  false there whatever the second operand is.
\<close>

definition edgeTest :: "point \<Rightarrow> position \<Rightarrow> position \<Rightarrow> bool" where
  "edgeTest p ci cj =
     (let xi = Num (snd ci); yi = Num (fst ci);
          xj = Num (snd cj); yj = Num (fst cj)
      in (num_gt yi (lat p) \<noteq> num_gt yj (lat p)) \<and>
         num_lt (lng p) (fadd (fdiv (fmul (fsub xj xi) (fsub (lat p) yi)) (fsub yj yi)) xi))"

text \<open>\<open>for (let i = 0, j = coordinates.length - 1; i < coordinates.length; j = i++)\<close>\<close>

function polygonLoop :: "point \<Rightarrow> position list \<Rightarrow> nat \<Rightarrow> nat \<Rightarrow> bool \<Rightarrow> bool" where
  "polygonLoop p coordinates i j inside =
     (if i < length coordinates
      then polygonLoop p coordinates (i + 1) i
             (if edgeTest p (coordinates ! i) (coordinates ! j) then \<not> inside else inside)
      else inside)"
  by pat_completeness auto
termination
  by (relation "measure (\<lambda>(p, coordinates, i, j, inside). length coordinates - i)") auto

declare polygonLoop.simps [simp del]

text \<open>
  \<open>geofence.coordinates[0]\<close> of a polygon without any ring is \<open>undefined\<close>, and reading its
  \<open>length\<close> throws. \<open>geofence.radius\<close> is truthy when it is present and not zero.
\<close>

fun isPointInGeofence :: "point \<Rightarrow> geojson \<Rightarrow> error + bool" where
  "isPointInGeofence p (Polygon rings) =
     (case rings of
        [] \<Rightarrow> Inl TypeError
      | coordinates # _ \<Rightarrow>
          Inr (polygonLoop p coordinates 0 (length coordinates - 1) False))"
| "isPointInGeofence p (Point c radius) =
     (case radius of
        None \<Rightarrow> Inr False
      | Some r \<Rightarrow>
          if r = 0 then Inr False
          else Inr (num_le (getDistance p \<lparr>lat = Num (snd c), lng = Num (fst c)\<rparr>) (Num r)))"
| "isPointInGeofence p OtherGeometry = Inr False"

text \<open>
  The even-odd ray-casting test as the specification words it: longitude is the \<open>x\<close> axis
  and latitude the \<open>y\<close> axis, for the vertices (GeoJSON \<open>[lng, lat]\<close>) and for the point alike.
\<close>

definition spec_edgeTest :: "point \<Rightarrow> position \<Rightarrow> position \<Rightarrow> bool" where
  "spec_edgeTest p ci cj =
     (let xi = Num (fst ci); yi = Num (snd ci);
          xj = Num (fst cj); yj = Num (snd cj)
      in (num_gt yi (lat p) \<noteq> num_gt yj (lat p)) \<and>
         num_lt (lng p) (fadd (fdiv (fmul (fsub xj xi) (fsub (lat p) yi)) (fsub yj yi)) xi))"

function spec_polygonLoop :: "point \<Rightarrow> position list \<Rightarrow> nat \<Rightarrow> nat \<Rightarrow> bool \<Rightarrow> bool" where
  "spec_polygonLoop p ring i j inside =
     (if i < length ring
      then spec_polygonLoop p ring (i + 1) i
             (if spec_edgeTest p (ring ! i) (ring ! j) then \<not> inside else inside)
      else inside)"
  by pat_completeness auto
termination
  by (relation "measure (\<lambda>(p, ring, i, j, inside). length ring - i)") auto

declare spec_polygonLoop.simps [simp del]

definition spec_contains_polygon :: "point \<Rightarrow> position list \<Rightarrow> bool" where
  "spec_contains_polygon p ring = spec_polygonLoop p ring 0 (length ring - 1) False"

section \<open>Tables (\<open>shared/schema.ts\<close>)\<close>

text \<open>A timestamp is a number of milliseconds; \<open>decimal\<close> columns travel as strings.\<close>

type_synonym time = int

record Device =
  dev_id :: int
  dev_name :: string
  dev_deviceId :: string
  dev_userId :: int
  dev_isActive :: bool
  dev_batteryLevel :: "int option"
  dev_lastSeen :: "time option"
  dev_createdAt :: time

record Geofence =
  gf_id :: int
  gf_name :: string
  gf_type :: string
  gf_description :: "string option"
  gf_coordinates :: geojson
  gf_isActive :: bool
  gf_createdBy :: int
  gf_createdAt :: time
  gf_expiresAt :: "time option"

record Location =
  loc_id :: int
  loc_deviceId :: int
  loc_latitude :: string
  loc_longitude :: string
  loc_accuracy :: "int option"
  loc_timestamp :: time
  loc_isOfflineRecord :: bool
  loc_syncedAt :: "time option"

record GeofenceEvent =
  ev_id :: int
  ev_deviceId :: int
  ev_geofenceId :: int
  ev_eventType :: string
  ev_latitude :: string
  ev_longitude :: string
  ev_timestamp :: time
  ev_duration :: "int option"

text \<open>
  \<open>InsertLocation\<close> and \<open>InsertGeofenceEvent\<close>: the insert schemas omit \<open>id\<close>,
  \<open>timestamp\<close> and (for locations) \<open>syncedAt\<close>, so a client-supplied time never reaches
  the tables.
\<close>

record InsertLocation =
  il_deviceId :: int
  il_latitude :: string
  il_longitude :: string
  il_accuracy :: "int option"
  il_isOfflineRecord :: "bool option"

record InsertGeofenceEvent =
  ie_deviceId :: int
  ie_geofenceId :: int
  ie_eventType :: string
  ie_latitude :: string
  ie_longitude :: string
  ie_duration :: "int option"

text \<open>The database: the four tables the routes touch and the two serial counters.\<close>

record db =
  devices :: "Device list"
  geofences :: "Geofence list"
  locations :: "Location list"
  geofenceEvents :: "GeofenceEvent list"
  locations_id_seq :: int
  geofence_events_id_seq :: int

section \<open>Request bodies and schema validation\<close>

datatype json =
    JNull
  | JBool bool
  | JNumber real
  | JString string
  | JArray "json list"
  | JObject "(string \<times> json) list"

text \<open>Property access on a parsed body; a repeated key keeps its last value.\<close>

fun getProp :: "string \<Rightarrow> json \<Rightarrow> json option" where
  "getProp k (JObject kvs) = map_of (rev kvs) k"
| "getProp k _ = None"

text \<open>
  The schema that \<open>createInsertSchema\<close> derives for an \<open>integer\<close> column: a number that
  is an integer in the 32-bit range. A \<open>decimal\<close> column becomes a plain string, with no
  check of its contents.
\<close>

definition zodInt :: "real \<Rightarrow> int option" where
  "zodInt x =
     (if x = of_int \<lfloor>x\<rfloor> \<and> - 2147483648 \<le> x \<and> x \<le> 2147483647 then Some \<lfloor>x\<rfloor> else None)"

text \<open>The field schemas: a required string, a required integer, an optional integer
  that may be \<open>null\<close>, and an optional boolean (\<open>None\<close> is a validation failure).\<close>

fun zodString :: "json option \<Rightarrow> string option" where
  "zodString (Some (JString s)) = Some s"
| "zodString _ = None"

fun zodInteger :: "json option \<Rightarrow> int option" where
  "zodInteger (Some (JNumber x)) = zodInt x"
| "zodInteger _ = None"

fun zodOptionalNullableInteger :: "json option \<Rightarrow> int option option" where
  "zodOptionalNullableInteger None = Some None"
| "zodOptionalNullableInteger (Some JNull) = Some None"
| "zodOptionalNullableInteger (Some (JNumber x)) = map_option Some (zodInt x)"
| "zodOptionalNullableInteger _ = None"

fun zodOptionalBoolean :: "json option \<Rightarrow> bool option option" where
  "zodOptionalBoolean None = Some None"
| "zodOptionalBoolean (Some (JBool b)) = Some (Some b)"
| "zodOptionalBoolean _ = None"

text \<open>
  \<open>insertLocationSchema\<close>: the columns of \<open>locations\<close> without \<open>id\<close>, \<open>timestamp\<close> and
  \<open>syncedAt\<close>; other keys of the body are dropped.
\<close>

definition insertLocationSchema :: "json \<Rightarrow> error + InsertLocation" where
  "insertLocationSchema body =
     (case body of
        JObject kvs \<Rightarrow>
          (case zodInteger (getProp ''deviceId'' body) of
             None \<Rightarrow> Inl ZodError
           | Some deviceId \<Rightarrow>
          (case zodString (getProp ''latitude'' body) of
             None \<Rightarrow> Inl ZodError
           | Some latitude \<Rightarrow>
          (case zodString (getProp ''longitude'' body) of
             None \<Rightarrow> Inl ZodError
           | Some longitude \<Rightarrow>
          (case zodOptionalNullableInteger (getProp ''accuracy'' body) of
             None \<Rightarrow> Inl ZodError
           | Some accuracy \<Rightarrow>
          (case zodOptionalBoolean (getProp ''isOfflineRecord'' body) of
             None \<Rightarrow> Inl ZodError
           | Some isOfflineRecord \<Rightarrow>
               Inr \<lparr>il_deviceId = deviceId, il_latitude = latitude, il_longitude = longitude,
                    il_accuracy = accuracy, il_isOfflineRecord = isOfflineRecord\<rparr>)))))
      | _ \<Rightarrow> Inl ZodError)"

text \<open>\<open>z.array(insertLocationSchema)\<close>\<close>

fun parseAll :: "json list \<Rightarrow> error + InsertLocation list" where
  "parseAll [] = Inr []"
| "parseAll (x # xs) =
     (case insertLocationSchema x of
        Inl e \<Rightarrow> Inl e
      | Inr l \<Rightarrow> (case parseAll xs of Inl e \<Rightarrow> Inl e | Inr ls \<Rightarrow> Inr (l # ls)))"

definition insertLocationArraySchema :: "json \<Rightarrow> error + InsertLocation list" where
  "insertLocationArraySchema body = (case body of JArray xs \<Rightarrow> parseAll xs | _ \<Rightarrow> Inl ZodError)"

section \<open>The readers of decimal text\<close>

text \<open>
  The routes hand the coordinates, which are strings, to two readers that are not part of
  the repository. The database reads the text into a \<open>numeric(precision, scale)\<close> column
  and returns the stored value as text (\<open>None\<close> when it refuses the text), and JavaScript's
  \<open>parseFloat\<close> turns the text into a number. Storage and routes are written for any such
  pair of readers.
\<close>

record readers =
  numeric_in :: "nat \<Rightarrow> nat \<Rightarrow> string \<Rightarrow> string option"
  parse_float :: "string \<Rightarrow> number"

text \<open>
  The readers of the examples. Both skip leading blanks and read an optional sign, digits
  with an optional point (at least one digit before or after it), and an exponent.
\<close>

definition isDigit :: "char \<Rightarrow> bool" where
  "isDigit c = (c \<in> set ''0123456789'')"

definition isSpace :: "char \<Rightarrow> bool" where
  "isSpace c = (c \<in> set [CHR '' '', CHR 0x09, CHR 0x0A, CHR 0x0B, CHR 0x0C, CHR 0x0D])"

definition digitsValue :: "string \<Rightarrow> nat" where
  "digitsValue ds = foldl (\<lambda>acc c. 10 * acc + (of_char c - 48)) 0 ds"

definition scanSign :: "string \<Rightarrow> bool \<times> string" where
  "scanSign s =
     (case s of
        [] \<Rightarrow> (False, [])
      | c # r \<Rightarrow> if c = CHR ''-'' then (True, r) else if c = CHR ''+'' then (False, r) else (False, s))"

text \<open>The digits and the point: the value read and the text that follows it.\<close>

definition scanMantissa :: "string \<Rightarrow> (real \<times> string) option" where
  "scanMantissa s =
     (let ip = takeWhile isDigit s; r1 = dropWhile isDigit s
      in case r1 of
           [] \<Rightarrow> if ip = [] then None else Some (of_nat (digitsValue ip), [])
         | c # r \<Rightarrow>
             if c = CHR ''.''
             then (let fp = takeWhile isDigit r; r2 = dropWhile isDigit r
                   in if ip = [] \<and> fp = [] then None
                      else Some (of_nat (digitsValue ip) + of_nat (digitsValue fp) / 10 ^ length fp, r2))
             else if ip = [] then None
             else Some (of_nat (digitsValue ip), r1))"

text \<open>
  An exponent part: \<open>e\<close> or \<open>E\<close>, an optional sign and at least one digit; \<open>None\<close> when
  the text does not start with one.
\<close>

definition scanExponent :: "string \<Rightarrow> (int \<times> string) option" where
  "scanExponent s =
     (case s of
        [] \<Rightarrow> None
      | c # r \<Rightarrow>
          if c = CHR ''e'' \<or> c = CHR ''E''
          then (let ds = takeWhile isDigit (snd (scanSign r))
                in if ds = [] then None
                   else Some ((if fst (scanSign r) then - 1 else 1) * int (digitsValue ds),
                              dropWhile isDigit (snd (scanSign r))))
          else None)"

definition scale10 :: "real \<Rightarrow> int \<Rightarrow> real" where
  "scale10 m e = (if 0 \<le> e then m * 10 ^ nat e else m / 10 ^ nat (- e))"

text \<open>
  \<open>parseFloat\<close> reads the longest prefix that is a decimal literal and ignores what
  follows; without such a prefix the result is \<open>NaN\<close>. (The literal \<open>Infinity\<close> has no
  number here and reads as \<open>NaN\<close>; the containment test answers false for both.)
\<close>

definition parseFloat :: "string \<Rightarrow> number" where
  "parseFloat s =
     (let t = scanSign (dropWhile isSpace s)
      in case scanMantissa (snd t) of
           None \<Rightarrow> NaN
         | Some (m, r) \<Rightarrow>
             (let v = (case scanExponent r of None \<Rightarrow> m | Some (e, r') \<Rightarrow> scale10 m e)
              in Num (rnd (if fst t then - v else v))))"

text \<open>The text of a stored \<open>numeric\<close> value: all the digits of the scale are written.\<close>

definition digitChar :: "nat \<Rightarrow> char" where
  "digitChar n = ''0123456789'' ! n"

function showNat :: "nat \<Rightarrow> string" where
  "showNat n = (if n < 10 then [digitChar n] else showNat (n div 10) @ [digitChar (n mod 10)])"
  by pat_completeness auto
termination
  by (relation "measure id") auto

declare showNat.simps [simp del]

primrec fixedDigits :: "nat \<Rightarrow> nat \<Rightarrow> string" where
  "fixedDigits 0 n = []"
| "fixedDigits (Suc w) n = fixedDigits w (n div 10) @ [digitChar (n mod 10)]"

definition renderNumeric :: "bool \<Rightarrow> nat \<Rightarrow> nat \<Rightarrow> string" where
  "renderNumeric negative n scale =
     (if negative then ''-'' else []) @ showNat (n div 10 ^ scale) @
     (if scale = 0 then [] else CHR ''.'' # fixedDigits scale (n mod 10 ^ scale))"

text \<open>
  The value is rounded to the scale, half away from zero, and refused when it then needs
  more digits than the precision allows.
\<close>

definition storeNumeric :: "nat \<Rightarrow> nat \<Rightarrow> bool \<Rightarrow> real \<Rightarrow> string option" where
  "storeNumeric precision scale negative v =
     (let n = nat \<lfloor>\<bar>v\<bar> * 10 ^ scale + 1/2\<rfloor>
      in if n < 10 ^ precision then Some (renderNumeric (negative \<and> n \<noteq> 0) n scale) else None)"

text \<open>
  The column reads the whole text: after the number only blanks may follow, and an \<open>e\<close>
  must start a complete exponent. \<open>NaN\<close>, in any case of the letters, is a value of the
  column.
\<close>

definition numericColumn :: "nat \<Rightarrow> nat \<Rightarrow> string \<Rightarrow> string option" where
  "numericColumn precision scale s =
     (let t = dropWhile isSpace s
      in if take 3 t \<in> set [''NaN'', ''NAN'', ''NAn'', ''Nan'', ''nAN'', ''nAn'', ''naN'', ''nan'']
         then (if list_all isSpace (drop 3 t) then Some ''NaN'' else None)
         else (case scanMantissa (snd (scanSign t)) of
                 None \<Rightarrow> None
               | Some (m, r) \<Rightarrow>
                   (case r of
                      [] \<Rightarrow> storeNumeric precision scale (fst (scanSign t)) m
                    | c # r0 \<Rightarrow>
                        if c = CHR ''e'' \<or> c = CHR ''E''
                        then (case scanExponent r of
                                None \<Rightarrow> None
                              | Some (e, r') \<Rightarrow>
                                  if list_all isSpace r'
                                  then storeNumeric precision scale (fst (scanSign t)) (scale10 m e)
                                  else None)
                        else if list_all isSpace r
                        then storeNumeric precision scale (fst (scanSign t)) m
                        else None)))"

definition node_postgres :: readers where
  "node_postgres = \<lparr>numeric_in = numericColumn, parse_float = parseFloat\<rparr>"

section \<open>Storage (\<open>server/storage.ts\<close>)\<close>

text \<open>
  Each operation is one SQL statement; \<open>now\<close> is the clock that \<open>defaultNow()\<close>,
  \<open>NOW()\<close> and \<open>new Date()\<close> read. A statement that the database refuses throws and
  changes nothing. The row that \<open>returning()\<close> gives back carries the columns as stored:
  the coordinates are what the \<open>numeric(10, 8)\<close> and \<open>numeric(11, 8)\<close> columns made of the
  text.
\<close>

definition createLocation ::
    "readers \<Rightarrow> time \<Rightarrow> InsertLocation \<Rightarrow> db \<Rightarrow> error + (Location \<times> db)" where
  "createLocation rd now insertLocation d =
     (case (numeric_in rd 10 8 (il_latitude insertLocation),
            numeric_in rd 11 8 (il_longitude insertLocation)) of
        (Some latitude, Some longitude) \<Rightarrow>
          (let location =
                  \<lparr>loc_id = locations_id_seq d,
                   loc_deviceId = il_deviceId insertLocation,
                   loc_latitude = latitude,
                   loc_longitude = longitude,
                   loc_accuracy = il_accuracy insertLocation,
                   loc_timestamp = now,
                   loc_isOfflineRecord =
                     (case il_isOfflineRecord insertLocation of None \<Rightarrow> False | Some b \<Rightarrow> b),
                   loc_syncedAt = None\<rparr>
           in Inr (location,
                   d\<lparr>locations := locations d @ [location],
                     locations_id_seq := locations_id_seq d + 1\<rparr>))
      | _ \<Rightarrow> Inl DbError)"

definition updateDeviceLastSeen :: "time \<Rightarrow> int \<Rightarrow> db \<Rightarrow> db" where
  "updateDeviceLastSeen now i d =
     d\<lparr>devices := map (\<lambda>dev. if dev_id dev = i then dev\<lparr>dev_lastSeen := Some now\<rparr> else dev)
                      (devices d)\<rparr>"

text \<open>
  The column \<open>battery_level\<close> is an integer: the database refuses a value with a fraction.
\<close>

definition updateDeviceBattery :: "time \<Rightarrow> int \<Rightarrow> real \<Rightarrow> db \<Rightarrow> error + db" where
  "updateDeviceBattery now i batteryLevel d =
     (if batteryLevel = of_int \<lfloor>batteryLevel\<rfloor> \<and> - 2147483648 \<le> i \<and> i \<le> 2147483647
      then Inr (d\<lparr>devices :=
                    map (\<lambda>dev. if dev_id dev = i
                               then dev\<lparr>dev_batteryLevel := Some \<lfloor>batteryLevel\<rfloor>,
                                        dev_lastSeen := Some now\<rparr>
                               else dev)
                        (devices d)\<rparr>)
      else Inl DbError)"

definition getActiveGeofences :: "time \<Rightarrow> db \<Rightarrow> Geofence list" where
  "getActiveGeofences now d =
     filter (\<lambda>g. gf_isActive g \<and> (case gf_expiresAt g of None \<Rightarrow> True | Some t \<Rightarrow> now < t))
            (geofences d)"

definition createGeofenceEvent ::
    "readers \<Rightarrow> time \<Rightarrow> InsertGeofenceEvent \<Rightarrow> db \<Rightarrow> error + (GeofenceEvent \<times> db)" where
  "createGeofenceEvent rd now insertEvent d =
     (case (numeric_in rd 10 8 (ie_latitude insertEvent),
            numeric_in rd 11 8 (ie_longitude insertEvent)) of
        (Some latitude, Some longitude) \<Rightarrow>
          (let event =
                  \<lparr>ev_id = geofence_events_id_seq d,
                   ev_deviceId = ie_deviceId insertEvent,
                   ev_geofenceId = ie_geofenceId insertEvent,
                   ev_eventType = ie_eventType insertEvent,
                   ev_latitude = latitude,
                   ev_longitude = longitude,
                   ev_timestamp = now,
                   ev_duration = ie_duration insertEvent\<rparr>
           in Inr (event,
                   d\<lparr>geofenceEvents := geofenceEvents d @ [event],
                     geofence_events_id_seq := geofence_events_id_seq d + 1\<rparr>))
      | _ \<Rightarrow> Inl DbError)"

text \<open>
  The rows of one multi-row insert, in the order of the values, with \<open>syncedAt\<close> set; the
  insert fails as a whole when the database refuses one of the coordinates.
\<close>

fun syncedRows :: "readers \<Rightarrow> time \<Rightarrow> int \<Rightarrow> InsertLocation list \<Rightarrow> Location list option" where
  "syncedRows rd now i [] = Some []"
| "syncedRows rd now i (loc # locs) =
     (case (numeric_in rd 10 8 (il_latitude loc), numeric_in rd 11 8 (il_longitude loc)) of
        (Some latitude, Some longitude) \<Rightarrow>
          (case syncedRows rd now (i + 1) locs of
             None \<Rightarrow> None
           | Some rows \<Rightarrow>
               Some (\<lparr>loc_id = i,
                      loc_deviceId = il_deviceId loc,
                      loc_latitude = latitude,
                      loc_longitude = longitude,
                      loc_accuracy = il_accuracy loc,
                      loc_timestamp = now,
                      loc_isOfflineRecord =
                        (case il_isOfflineRecord loc of None \<Rightarrow> False | Some b \<Rightarrow> b),
                      loc_syncedAt = Some now\<rparr> # rows))
      | _ \<Rightarrow> None)"

definition syncOfflineLocations ::
    "readers \<Rightarrow> time \<Rightarrow> InsertLocation list \<Rightarrow> db \<Rightarrow> error + (Location list \<times> db)" where
  "syncOfflineLocations rd now insertLocations d =
     (if length insertLocations = 0 then Inr ([], d)
      else (case syncedRows rd now (locations_id_seq d) insertLocations of
              None \<Rightarrow> Inl DbError
            | Some syncedLocations \<Rightarrow>
                Inr (syncedLocations,
                     d\<lparr>locations := locations d @ syncedLocations,
                       locations_id_seq := locations_id_seq d + int (length insertLocations)\<rparr>)))"

section \<open>Routes (\<open>registerRoutes\<close>)\<close>

datatype message =
    Geofence_event GeofenceEvent Geofence
  | Location_update Location
  | Offline_sync nat
  | Battery_update int real

text \<open>A response is its status code; \<open>sent\<close> lists what the handler broadcast.\<close>

record response =
  status :: nat
  sent :: "message list"

text \<open>
  The loop of \<open>POST /api/locations\<close> over the active geofences. The point is read from
  the strings of the request. An exception leaves the loop; what was stored before it stays
  stored.
\<close>

fun checkGeofences ::
    "readers \<Rightarrow> time \<Rightarrow> InsertLocation \<Rightarrow> Geofence list \<Rightarrow> db
       \<Rightarrow> error option \<times> message list \<times> db" where
  "checkGeofences rd now locationData [] d = (None, [], d)"
| "checkGeofences rd now locationData (geofence # rest) d =
     (case isPointInGeofence
             \<lparr>lat = parse_float rd (il_latitude locationData),
              lng = parse_float rd (il_longitude locationData)\<rparr>
             (gf_coordinates geofence) of
        Inl e \<Rightarrow> (Some e, [], d)
      | Inr False \<Rightarrow> checkGeofences rd now locationData rest d
      | Inr True \<Rightarrow>
          (case createGeofenceEvent rd now
                  \<lparr>ie_deviceId = il_deviceId locationData,
                   ie_geofenceId = gf_id geofence,
                   ie_eventType = ''entry'',
                   ie_latitude = il_latitude locationData,
                   ie_longitude = il_longitude locationData,
                   ie_duration = None\<rparr> d of
             Inl e \<Rightarrow> (Some e, [], d)
           | Inr (event, d') \<Rightarrow>
               (case checkGeofences rd now locationData rest d' of
                  (r, msgs, d'') \<Rightarrow> (r, Geofence_event event geofence # msgs, d''))))"

text \<open>\<open>POST /api/locations\<close>\<close>

definition postLocations :: "readers \<Rightarrow> time \<Rightarrow> json \<Rightarrow> db \<Rightarrow> response \<times> db" where
  "postLocations rd now body d =
     (case insertLocationSchema body of
        Inl e \<Rightarrow> (\<lparr>status = 400, sent = []\<rparr>, d)
      | Inr locationData \<Rightarrow>
          (case createLocation rd now locationData d of
             Inl e \<Rightarrow> (\<lparr>status = 500, sent = []\<rparr>, d)
           | Inr (location, d1) \<Rightarrow>
               (let d2 = updateDeviceLastSeen now (il_deviceId locationData) d1;
                    geofences = getActiveGeofences now d2
                in (case checkGeofences rd now locationData geofences d2 of
                      (Some e, msgs, d3) \<Rightarrow> (\<lparr>status = 500, sent = msgs\<rparr>, d3)
                    | (None, msgs, d3) \<Rightarrow>
                        (\<lparr>status = 200, sent = msgs @ [Location_update location]\<rparr>, d3)))))"

text \<open>\<open>POST /api/locations/sync\<close>\<close>

definition postLocationsSync :: "readers \<Rightarrow> time \<Rightarrow> json \<Rightarrow> db \<Rightarrow> response \<times> db" where
  "postLocationsSync rd now body d =
     (case insertLocationArraySchema body of
        Inl e \<Rightarrow> (\<lparr>status = 400, sent = []\<rparr>, d)
      | Inr locationsData \<Rightarrow>
          (case syncOfflineLocations rd now locationsData d of
             Inl e \<Rightarrow> (\<lparr>status = 500, sent = []\<rparr>, d)
           | Inr (locs, d') \<Rightarrow> (\<lparr>status = 200, sent = [Offline_sync (length locs)]\<rparr>, d')))"

text \<open>
  \<open>PUT /api/devices/:id/battery\<close>. \<open>i\<close> is \<open>parseInt(req.params.id)\<close>, \<open>None\<close> when that
  is \<open>NaN\<close> (which the database refuses); \<open>batteryLevel\<close> is the property of the body,
  \<open>None\<close> when it is absent.
\<close>

definition putDeviceBattery :: "time \<Rightarrow> int option \<Rightarrow> json option \<Rightarrow> db \<Rightarrow> response \<times> db" where
  "putDeviceBattery now i batteryLevel d =
     (case batteryLevel of
        Some (JNumber b) \<Rightarrow>
          if b < 0 \<or> 100 < b then (\<lparr>status = 400, sent = []\<rparr>, d)
          else (case i of
                  None \<Rightarrow> (\<lparr>status = 500, sent = []\<rparr>, d)
                | Some n \<Rightarrow>
                    (case updateDeviceBattery now n b d of
                       Inl e \<Rightarrow> (\<lparr>status = 500, sent = []\<rparr>, d)
                     | Inr d' \<Rightarrow> (\<lparr>status = 200, sent = [Battery_update n b]\<rparr>, d')))
      | _ \<Rightarrow> (\<lparr>status = 400, sent = []\<rparr>, d))"

section \<open>Notions used by the claims\<close>

text \<open>
  What an event row carries apart from its id and its timestamp; the geofences of a list on
  which \<open>isPointInGeofence\<close> answers true for the coordinates of a report (the containment
  test as the server runs it); and the fields of the entry event that the live route creates
  for a report, its stored coordinates and a geofence.
\<close>

definition eventFields :: "GeofenceEvent \<Rightarrow> int \<times> int \<times> string \<times> string \<times> string \<times> int option" where
  "eventFields e =
     (ev_deviceId e, ev_geofenceId e, ev_eventType e, ev_latitude e, ev_longitude e, ev_duration e)"

definition testsInside :: "readers \<Rightarrow> InsertLocation \<Rightarrow> Geofence \<Rightarrow> bool" where
  "testsInside rd locationData g =
     (isPointInGeofence
        \<lparr>lat = parse_float rd (il_latitude locationData),
         lng = parse_float rd (il_longitude locationData)\<rparr>
        (gf_coordinates g) = Inr True)"

definition entryFields ::
    "InsertLocation \<Rightarrow> string \<Rightarrow> string \<Rightarrow> Geofence
       \<Rightarrow> int \<times> int \<times> string \<times> string \<times> string \<times> int option" where
  "entryFields locationData latitude longitude g =
     (il_deviceId locationData, gf_id g, ''entry'', latitude, longitude, None)"

text \<open>
  The invariant of the specification: the event types of one device and one geofence, in
  the order of the event log, read entry, exit, entry, exit, \<open>\<dots>\<close>, starting with entry.
\<close>

fun alternates :: "string list \<Rightarrow> bool" where
  "alternates [] = True"
| "alternates [a] = (a = ''entry'')"
| "alternates (a # b # rest) = (a = ''entry'' \<and> b = ''exit'' \<and> alternates rest)"

definition eventsFor :: "int \<Rightarrow> int \<Rightarrow> db \<Rightarrow> GeofenceEvent list" where
  "eventsFor deviceId geofenceId d =
     filter (\<lambda>e. ev_deviceId e = deviceId \<and> ev_geofenceId e = geofenceId) (geofenceEvents d)"

text \<open>
  A small database for the examples: one device, and one active geofence, the square with
  corners \<open>(0, 0)\<close> and \<open>(10, 10)\<close>. Reports of device 1: one inside the square, one
  outside, one without a latitude, and one with coordinates out of range. \<open>ex_db1\<close> is
  the database after the report inside the square.
\<close>

definition ex_geofence :: Geofence where
  "ex_geofence =
     \<lparr>gf_id = 1, gf_name = ''yard'', gf_type = ''restricted_area'', gf_description = None,
      gf_coordinates = Polygon [[(0, 0), (10, 0), (10, 10), (0, 10)]],
      gf_isActive = True, gf_createdBy = 1, gf_createdAt = 0, gf_expiresAt = None\<rparr>"

definition ex_device :: Device where
  "ex_device =
     \<lparr>dev_id = 1, dev_name = ''phone'', dev_deviceId = ''d-1'', dev_userId = 1,
      dev_isActive = True, dev_batteryLevel = None, dev_lastSeen = None, dev_createdAt = 0\<rparr>"

definition ex_db :: db where
  "ex_db =
     \<lparr>devices = [ex_device], geofences = [ex_geofence], locations = [], geofenceEvents = [],
      locations_id_seq = 1, geofence_events_id_seq = 1\<rparr>"

definition ex_report :: "string \<Rightarrow> string \<Rightarrow> json" where
  "ex_report la lo =
     JObject [(''deviceId'', JNumber 1), (''latitude'', JString la), (''longitude'', JString lo)]"

definition ex_inside :: json where
  "ex_inside = ex_report ''5'' ''5''"

definition ex_outside :: json where
  "ex_outside = ex_report ''20'' ''20''"

definition ex_db1 :: db where
  "ex_db1 = snd (postLocations node_postgres 1000 ex_inside ex_db)"

definition ex_no_latitude :: json where
  "ex_no_latitude = JObject [(''deviceId'', JNumber 1), (''longitude'', JString ''5'')]"

definition ex_out_of_range :: json where
  "ex_out_of_range = ex_report ''95'' ''200''"

section \<open>Rounding\<close>

lemma rnd_zero [simp]: "rnd 0 = 0"
  by (simp add: rnd_def)

lemma round_even_of_int: "round_even (of_int m) = m"
  by (simp add: round_even_def)

lemma round_even_nonneg: "0 \<le> x \<Longrightarrow> 0 \<le> round_even x"
  by (simp add: round_even_def Let_def)

lemma rnd_nonneg: "0 \<le> x \<Longrightarrow> 0 \<le> rnd x"
  by (simp add: rnd_def Let_def round_even_nonneg)

text \<open>
  Evaluation of \<open>rnd\<close>: once \<open>x\<close> is scaled into \<open>[2^52, 2^53)\<close>, rounding is rounding to
  an integer.
\<close>

lemma rnd_scaled:
  fixes k :: nat
  assumes "2 ^ 52 \<le> \<bar>x\<bar> * 2 ^ k" "\<bar>x\<bar> * 2 ^ k < 2 ^ 53"
  shows "rnd x = of_int (round_even (x * 2 ^ k)) / 2 ^ k"
proof -
  have x0: "x \<noteq> 0" using assms(1) by auto
  have pos: "0 < \<bar>x\<bar>" using x0 by simp
  have p: "(2::real) powr (of_int (52 - int k)) = 2 ^ 52 / 2 ^ k"
    by (simp add: powr_diff powr_realpow)
  have lo: "(2::real) ^ 52 / 2 ^ k \<le> \<bar>x\<bar>"
    using assms(1) by (simp add: field_simps)
  have p': "(2::real) powr (of_int (52 - int k + 1)) = 2 ^ 53 / 2 ^ k"
    by (simp add: powr_diff powr_realpow powr_add)
  have hi: "\<bar>x\<bar> < (2::real) ^ 53 / 2 ^ k"
    using assms(2) by (simp add: field_simps)
  have "2 powr (of_int (52 - int k)) \<le> \<bar>x\<bar> \<and> \<bar>x\<bar> < 2 powr (of_int (52 - int k + 1))"
    unfolding p p' using lo hi by blast
  then have "\<lfloor>log 2 \<bar>x\<bar>\<rfloor> = 52 - int k"
    using pos floor_log_eq_powr_iff [of "\<bar>x\<bar>" 2 "52 - int k"] by simp
  then have e: "\<lfloor>log 2 \<bar>x\<bar>\<rfloor> - 52 = - int k" by simp
  have q: "(2::real) powr (of_int (- int k)) = 1 / 2 ^ k"
    by (simp add: powr_minus powr_realpow divide_inverse)
  show ?thesis using x0 unfolding rnd_def Let_def e q by simp
qed

text \<open>Integers below \<open>2^53\<close> are numbers: rounding leaves them alone.\<close>

lemma rnd_of_int:
  assumes "\<bar>n\<bar> < 2 ^ 53"
  shows "rnd (of_int n) = of_int n"
proof (cases "n = 0")
  case True
  then show ?thesis by simp
next
  case False
  define x :: real where "x = of_int n"
  have x1: "1 \<le> \<bar>x\<bar>" using False by (simp add: x_def flip: of_int_abs)
  have x2: "\<bar>x\<bar> < 2 ^ 53" using assms by (simp add: x_def flip: of_int_abs)
  define b where "b = \<lfloor>log 2 \<bar>x\<bar>\<rfloor>"
  have b0: "0 \<le> b" using x1 by (simp add: b_def)
  have "log 2 \<bar>x\<bar> < 53"
    using x1 x2 by (simp add: log_less_iff powr_realpow [symmetric])
  then have b52: "b \<le> 52" by (simp add: b_def floor_le_iff)
  define j where "j = nat (52 - b)"
  have e: "b - 52 = - int j" using b52 by (simp add: j_def)
  have q: "(2::real) powr (of_int (- int j)) = 1 / 2 ^ j"
    by (simp add: powr_minus powr_realpow divide_inverse)
  have "x / (1 / 2 ^ j) = of_int (n * 2 ^ j)" by (simp add: x_def)
  then have "round_even (x / (1 / 2 ^ j)) = n * 2 ^ j"
    using round_even_of_int by metis
  then have "rnd x = of_int (n * 2 ^ j) * (1 / 2 ^ j)"
    using x1 unfolding rnd_def Let_def b_def [symmetric] e q by auto
  then show ?thesis by (simp add: x_def)
qed

lemma rnd_numeral [simp]: "numeral w < (2::int) ^ 53 \<Longrightarrow> rnd (numeral w) = numeral w"
  using rnd_of_int [of "numeral w"] by simp

lemma rnd_neg_numeral [simp]: "numeral w < (2::int) ^ 53 \<Longrightarrow> rnd (- numeral w) = - numeral w"
  using rnd_of_int [of "- numeral w"] by simp

lemma rnd_one [simp]: "rnd 1 = 1"
  using rnd_of_int [of 1] by simp

lemma rnd_neg_one [simp]: "rnd (- 1) = - 1"
  using rnd_of_int [of "- 1"] by simp

text \<open>The two quotients of the two-vertex example below, and their neighbours.\<close>

lemma rnd_third: "rnd (1 / 3) = 6004799503160661 / 18014398509481984"
  using rnd_scaled [of "1/3" 54] by (simp add: round_even_def)

lemma rnd_third_exact:
  "rnd (6004799503160661 / 18014398509481984) = 6004799503160661 / 18014398509481984"
  using rnd_scaled [of "6004799503160661 / 18014398509481984" 54] by (simp add: round_even_def)

lemma rnd_two_thirds: "rnd (- (2 / 3)) = - (6004799503160661 / 9007199254740992)"
  using rnd_scaled [of "- (2/3)" 53] by (simp add: round_even_def)

lemma rnd_above_third:
  "rnd (3002399751580331 / 9007199254740992) = 3002399751580331 / 9007199254740992"
  using rnd_scaled [of "3002399751580331 / 9007199254740992" 54] by (simp add: round_even_def)

section \<open>The polygon loop\<close>

lemma polygonLoop_unfold:
  "i < length cs \<Longrightarrow> polygonLoop p cs i j inside =
     polygonLoop p cs (Suc i) i (if edgeTest p (cs ! i) (cs ! j) then \<not> inside else inside)"
  "\<not> i < length cs \<Longrightarrow> polygonLoop p cs i j inside = inside"
  by (subst polygonLoop.simps, simp)+

lemma spec_polygonLoop_unfold:
  "i < length cs \<Longrightarrow> spec_polygonLoop p cs i j inside =
     spec_polygonLoop p cs (Suc i) i (if spec_edgeTest p (cs ! i) (cs ! j) then \<not> inside else inside)"
  "\<not> i < length cs \<Longrightarrow> spec_polygonLoop p cs i j inside = inside"
  by (subst spec_polygonLoop.simps, simp)+

text \<open>
  What the source computes for a polygon is the specified test on the ring with the two
  entries of every position exchanged.
\<close>

lemma edgeTest_swap: "edgeTest p ci cj = spec_edgeTest p (prod.swap ci) (prod.swap cj)"
  by (simp add: edgeTest_def spec_edgeTest_def)

lemma polygonLoop_swap:
  "j < length cs \<Longrightarrow>
     polygonLoop p cs i j inside = spec_polygonLoop p (map prod.swap cs) i j inside"
proof (induction p cs i j inside rule: polygonLoop.induct)
  case (1 p cs i j inside)
  show ?case
  proof (cases "i < length cs")
    case True
    have "polygonLoop p cs i j inside =
            polygonLoop p cs (i + 1) i (if edgeTest p (cs ! i) (cs ! j) then \<not> inside else inside)"
      using True by (simp add: polygonLoop_unfold)
    also have "\<dots> = spec_polygonLoop p (map prod.swap cs) (i + 1) i
                       (if edgeTest p (cs ! i) (cs ! j) then \<not> inside else inside)"
      by (rule "1.IH" [OF True True])
    also have "\<dots> = spec_polygonLoop p (map prod.swap cs) i j inside"
      using True "1.prems" by (simp add: spec_polygonLoop_unfold edgeTest_swap)
    finally show ?thesis .
  next
    case False
    then show ?thesis by (simp add: polygonLoop_unfold spec_polygonLoop_unfold)
  qed
qed

lemma isPointInGeofence_transposed:
  "isPointInGeofence p (Polygon (ring # rest)) = Inr (spec_contains_polygon p (map prod.swap ring))"
proof (cases ring)
  case Nil
  then show ?thesis
    by (simp add: polygonLoop_unfold spec_polygonLoop_unfold spec_contains_polygon_def)
next
  case (Cons v vs)
  then have j: "length ring - 1 < length ring" by simp
  have "isPointInGeofence p (Polygon (ring # rest)) = Inr (polygonLoop p ring 0 (length ring - 1) False)"
    by (simp only: isPointInGeofence.simps list.case)
  also have "\<dots> = Inr (spec_polygonLoop p (map prod.swap ring) 0 (length ring - 1) False)"
    by (simp only: polygonLoop_swap [OF j])
  finally show ?thesis
    by (simp only: spec_contains_polygon_def length_map)
qed

section \<open>The distance\<close>

lemma fmul_Num: "fmul u v = Num t \<Longrightarrow> \<exists>x y. u = Num x \<and> v = Num y \<and> t = rnd (x * y)"
  by (cases u; cases v) auto

lemma Math_sqrt_Num: "Math_sqrt v = Num y \<Longrightarrow> 0 \<le> y"
  by (cases v) (auto split: if_splits intro: rnd_nonneg)

lemma atan2_nonneg: "0 \<le> y \<Longrightarrow> 0 \<le> x \<Longrightarrow> 0 \<le> atan2 y x"
  by (auto simp: atan2_def zero_le_arctan_iff)

lemma Math_atan2_Num:
  "Math_atan2 u v = Num t \<Longrightarrow> \<exists>y x. u = Num y \<and> v = Num x \<and> t = rnd (atan2 y x)"
  by (cases u; cases v) auto

text \<open>A distance is \<open>NaN\<close> or not negative.\<close>

lemma getDistance_nonneg:
  assumes "getDistance p q = Num d"
  shows "0 \<le> d"
proof -
  obtain a where d: "fmul (Num 6371000) (fmul (Num 2) (Math_atan2 (Math_sqrt a) (Math_sqrt (fsub (Num 1) a)))) = Num d"
    using assms unfolding getDistance_def Let_def by blast
  then obtain c where c: "fmul (Num 2) (Math_atan2 (Math_sqrt a) (Math_sqrt (fsub (Num 1) a))) = Num c"
    and dc: "d = rnd (6371000 * c)"
    using fmul_Num by blast
  then obtain t where t: "Math_atan2 (Math_sqrt a) (Math_sqrt (fsub (Num 1) a)) = Num t"
    and ct: "c = rnd (2 * t)"
    using fmul_Num by blast
  then obtain y x where y: "Math_sqrt a = Num y" and x: "Math_sqrt (fsub (Num 1) a) = Num x"
    and tyx: "t = rnd (atan2 y x)"
    using Math_atan2_Num by blast
  have "0 \<le> y" "0 \<le> x" using y x Math_sqrt_Num by blast+
  then have "0 \<le> t" unfolding tyx by (intro rnd_nonneg atan2_nonneg)
  then have "0 \<le> c" unfolding ct by (intro rnd_nonneg) simp
  then show ?thesis unfolding dc by (intro rnd_nonneg) simp
qed



section \<open>Claims about the geometry\<close>



text \<open>
  C6. The polygon test is meant to cast the ray with longitude as \<open>x\<close> and latitude as \<open>y\<close>.
  The source reads \<open>x\<close> from entry 1 (the latitude) and \<open>y\<close> from entry 0 (the longitude) of
  each vertex, and compares them with the longitude and the latitude of the point. For the
  rectangle with longitudes 10 to 20 and latitudes 0 to 5, the point at latitude 2 and
  longitude 15 lies inside, and the specified test says so; the source answers false.
\<close>

theorem polygon_axes_swapped:
  "isPointInGeofence \<lparr>lat = Num 2, lng = Num 15\<rparr> (Polygon [[(10, 0), (20, 0), (20, 5), (10, 5)]]) = Inr False \<and>
   spec_contains_polygon \<lparr>lat = Num 2, lng = Num 15\<rparr> [(10, 0), (20, 0), (20, 5), (10, 5)] = True"
  by (simp add: polygonLoop_unfold edgeTest_def spec_contains_polygon_def spec_polygonLoop_unfold spec_edgeTest_def)

text \<open>The two directed edges of the ring \<open>[0, 0]\<close>, \<open>[3, 1]\<close>.\<close>

lemma edge_01:
  "edgeTest \<lparr>lat = Num 1, lng = Num (6004799503160661 / 18014398509481984)\<rparr> (0, 0) (3, 1) = False"
  by (simp add: edgeTest_def rnd_third rnd_third_exact)

lemma edge_10:
  "edgeTest \<lparr>lat = Num 1, lng = Num (6004799503160661 / 18014398509481984)\<rparr> (3, 1) (0, 0) = True"
  by (simp add: edgeTest_def rnd_two_thirds rnd_above_third)

text \<open>
  C7, as the specification states it, fails twice. A ring of the two vertices \<open>[0, 0]\<close> and
  \<open>[3, 1]\<close> contains the point at latitude 1 and longitude 0.3333333333333333 (the number
  nearest to one third): the two directed edges give the crossings \<open>1/3\<close> and
  \<open>1 - 2/3\<close>, which differ in the last bit once rounded, and the longitude is below only
  one of them. And a polygon without any ring throws.
\<close>

theorem degenerate_shapes_counterexample:
  "isPointInGeofence \<lparr>lat = Num 1, lng = Num (6004799503160661 / 18014398509481984)\<rparr>
     (Polygon [[(0, 0), (3, 1)]]) = Inr True \<and>
   isPointInGeofence \<lparr>lat = Num 1, lng = Num 1\<rparr> (Polygon []) = Inl TypeError"
  by (simp add: polygonLoop_unfold edge_01 edge_10)

text \<open>
  C7, amended. For every point the containment test returns false, and does not throw, when
  the first ring of a polygon has at most one vertex, when the radius of a circle is zero,
  negative or absent. For a ring of two vertices it returns true exactly when the edge test
  succeeds in one direction and fails in the other.
\<close>

theorem degenerate_shapes:
  "(length ring \<le> 1 \<longrightarrow> isPointInGeofence p (Polygon (ring # rest)) = Inr False) \<and>
   (r \<le> 0 \<longrightarrow> isPointInGeofence p (Point c (Some r)) = Inr False) \<and>
   isPointInGeofence p (Point c None) = Inr False \<and>
   isPointInGeofence p (Polygon ([v0, v1] # rest)) = Inr (edgeTest p v0 v1 \<noteq> edgeTest p v1 v0)"
proof -
  have a: "isPointInGeofence p (Polygon (ring # rest)) = Inr False" if "length ring \<le> 1"
  proof (cases ring)
    case Nil
    then show ?thesis by (simp add: polygonLoop_unfold)
  next
    case (Cons v vs)
    then have "ring = [v]" using that by simp
    then show ?thesis by (simp add: polygonLoop_unfold edgeTest_def)
  qed
  have b: "isPointInGeofence p (Point c (Some r)) = Inr False" if "r \<le> 0"
  proof (cases "getDistance p \<lparr>lat = Num (snd c), lng = Num (fst c)\<rparr>")
    case (Num d)
    then have "0 \<le> d" by (rule getDistance_nonneg)
    then show ?thesis using that Num by auto
  next
    case NaN
    then show ?thesis by simp
  qed
  have c: "isPointInGeofence p (Polygon ([v0, v1] # rest)) = Inr (edgeTest p v0 v1 \<noteq> edgeTest p v1 v0)"
    by (auto simp: polygonLoop_unfold)
  show ?thesis using a b c by simp
qed

theorem degenerate_shapes_witness:
  "length [(1::real, 2::real)] \<le> 1 \<and>
   isPointInGeofence \<lparr>lat = Num 7, lng = Num 8\<rparr> (Polygon [[(1, 2)]]) = Inr False \<and>
   (- 5::real) \<le> 0 \<and>
   isPointInGeofence \<lparr>lat = Num 7, lng = Num 8\<rparr> (Point (3, 4) (Some (- 5))) = Inr False"
  using degenerate_shapes [where ring = "[(1, 2)]" and p = "\<lparr>lat = Num 7, lng = Num 8\<rparr>"
      and rest = "[]" and r = "- 5" and c = "(3, 4)"]
  by simp

section \<open>The readers of the examples\<close>

lemma showNat_small: "n < 10 \<Longrightarrow> showNat n = [digitChar n]"
  by (subst showNat.simps) simp

lemma showNat_big: "\<not> n < 10 \<Longrightarrow> showNat n = showNat (n div 10) @ [digitChar (n mod 10)]"
  by (subst showNat.simps) simp

lemma digitChar_simps:
  "digitChar 0 = CHR ''0''" "digitChar 1 = CHR ''1''" "digitChar 2 = CHR ''2''"
  "digitChar 3 = CHR ''3''" "digitChar 4 = CHR ''4''" "digitChar 5 = CHR ''5''"
  "digitChar 6 = CHR ''6''" "digitChar 7 = CHR ''7''" "digitChar 8 = CHR ''8''"
  "digitChar 9 = CHR ''9''"
  by (simp_all add: digitChar_def eval_nat_numeral)

lemma fixedDigits_numeral:
  "fixedDigits (numeral k) n = fixedDigits (pred_numeral k) (n div 10) @ [digitChar (n mod 10)]"
proof -
  have "numeral k = Suc (pred_numeral k)"
    by (rule numeral_eq_Suc)
  thus ?thesis
    by (simp only: fixedDigits.simps)
qed

lemma fixedDigits_1: "fixedDigits 1 n = [digitChar (n mod 10)]"
  using fixedDigits.simps(2) [of 0 n] by simp

lemmas scan_defs = scanSign_def scanMantissa_def scanExponent_def isDigit_def isSpace_def
  digitsValue_def scale10_def

lemma scanMantissa_ex:
  "scanMantissa ''5'' = Some (5, [])"
  "scanMantissa ''20'' = Some (20, [])"
  "scanMantissa ''95'' = Some (95, [])"
  "scanMantissa ''200'' = Some (200, [])"
  "scanMantissa ''5e0'' = Some (5, ''e0'')"
  "scanMantissa ''NaN'' = None"
  by (simp_all add: scan_defs)

lemma renderNumeric_ex:
  "renderNumeric False 500000000 8 = ''5.00000000''"
  "renderNumeric False 2000000000 8 = ''20.00000000''"
  "renderNumeric False 9500000000 8 = ''95.00000000''"
  "renderNumeric False 20000000000 8 = ''200.00000000''"
  by (simp_all add: renderNumeric_def showNat_small showNat_big digitChar_simps
      fixedDigits_numeral fixedDigits_1)

lemma storeNumeric_ex:
  "storeNumeric 10 8 False 5 = Some ''5.00000000''"
  "storeNumeric 11 8 False 5 = Some ''5.00000000''"
  "storeNumeric 10 8 False 20 = Some ''20.00000000''"
  "storeNumeric 11 8 False 20 = Some ''20.00000000''"
  "storeNumeric 10 8 False 95 = Some ''95.00000000''"
  "storeNumeric 11 8 False 200 = Some ''200.00000000''"
  by (simp_all add: storeNumeric_def renderNumeric_ex)

lemma numericColumn_ex:
  "numericColumn 10 8 ''5'' = Some ''5.00000000''"
  "numericColumn 11 8 ''5'' = Some ''5.00000000''"
  "numericColumn 10 8 ''20'' = Some ''20.00000000''"
  "numericColumn 11 8 ''20'' = Some ''20.00000000''"
  "numericColumn 10 8 ''95'' = Some ''95.00000000''"
  "numericColumn 11 8 ''200'' = Some ''200.00000000''"
  by (simp_all add: numericColumn_def isSpace_def scanSign_def scanMantissa_ex storeNumeric_ex)

lemma numeric_in_ex:
  "numeric_in node_postgres 10 8 ''5'' = Some ''5.00000000''"
  "numeric_in node_postgres 11 8 ''5'' = Some ''5.00000000''"
  "numeric_in node_postgres 10 8 ''20'' = Some ''20.00000000''"
  "numeric_in node_postgres 11 8 ''20'' = Some ''20.00000000''"
  "numeric_in node_postgres 10 8 ''95'' = Some ''95.00000000''"
  "numeric_in node_postgres 11 8 ''200'' = Some ''200.00000000''"
  by (simp_all add: node_postgres_def numericColumn_ex)

lemma parseFloat_ex:
  "parseFloat ''5'' = Num 5" "parseFloat ''20'' = Num 20"
  "parseFloat ''95'' = Num 95" "parseFloat ''200'' = Num 200"
  by (simp_all add: parseFloat_def isSpace_def scanSign_def scanMantissa_ex scanExponent_def)

lemma parse_float_ex:
  "parse_float node_postgres ''5'' = Num 5" "parse_float node_postgres ''20'' = Num 20"
  "parse_float node_postgres ''95'' = Num 95" "parse_float node_postgres ''200'' = Num 200"
  by (simp_all add: node_postgres_def parseFloat_ex)

text \<open>
  Other spellings of the number five, and the value \<open>NaN\<close>, which the column stores and
  which lies in no geofence.
\<close>

lemma spellings_ex:
  "numericColumn 10 8 '' 5'' = Some ''5.00000000''" "parseFloat '' 5'' = Num 5"
  "numericColumn 10 8 ''5e0'' = Some ''5.00000000''" "parseFloat ''5e0'' = Num 5"
  "numericColumn 11 8 ''5e0'' = Some ''5.00000000''"
  "numericColumn 10 8 ''5.'' = Some ''5.00000000''" "parseFloat ''5.'' = Num 5"
  "numericColumn 10 8 ''NaN'' = Some ''NaN''" "parseFloat ''NaN'' = NaN"
  "numericColumn 10 8 ''5e'' = None" "parseFloat ''5e'' = Num 5"
  "numericColumn 10 8 ''100'' = None" "parseFloat ''100'' = Num 100"
  by (simp_all add: numericColumn_def parseFloat_def scan_defs storeNumeric_def renderNumeric_ex)

section \<open>The live route: what a report appends\<close>

lemma createGeofenceEvent_Inr:
  "createGeofenceEvent rd now ie d = Inr (ev, d') \<Longrightarrow>
     \<exists>la lo. numeric_in rd 10 8 (ie_latitude ie) = Some la \<and>
             numeric_in rd 11 8 (ie_longitude ie) = Some lo \<and>
             d' = d\<lparr>geofenceEvents := geofenceEvents d @ [ev],
                     geofence_events_id_seq := geofence_events_id_seq d + 1\<rparr> \<and>
             eventFields ev = (ie_deviceId ie, ie_geofenceId ie, ie_eventType ie, la, lo,
                               ie_duration ie) \<and>
             ev_id ev = geofence_events_id_seq d \<and>
             ev_timestamp ev = now"
  by (auto simp: createGeofenceEvent_def Let_def eventFields_def split: option.splits)




text \<open>
  The events that the loop appends: each is an entry event of the reporting device for one
  of the geofences on which the test answered true; and when the loop ends without an
  exception there is one for each such geofence, in order.
\<close>

lemma checkGeofences_events:
  assumes "checkGeofences rd now ld gs d = (r, msgs, d')"
  shows "\<exists>new. geofenceEvents d' = geofenceEvents d @ new \<and>
           (\<forall>e\<in>set new. ev_eventType e = ''entry'' \<and> ev_duration e = None \<and>
                          ev_timestamp e = now \<and> ev_deviceId e = il_deviceId ld \<and>
                          (\<exists>g\<in>set gs. testsInside rd ld g \<and> ev_geofenceId e = gf_id g)) \<and>
           (r = None \<longrightarrow>
              (\<forall>la lo. numeric_in rd 10 8 (il_latitude ld) = Some la \<longrightarrow>
                       numeric_in rd 11 8 (il_longitude ld) = Some lo \<longrightarrow>
                 map eventFields new = map (entryFields ld la lo) (filter (testsInside rd ld) gs)))"
  using assms
proof (induction gs arbitrary: d r msgs d')
  case Nil
  then show ?case by simp
next
  case (Cons g gs)
  show ?case
  proof (cases "isPointInGeofence \<lparr>lat = parse_float rd (il_latitude ld), lng = parse_float rd (il_longitude ld)\<rparr> (gf_coordinates g)")
    case (Inl e)
    then show ?thesis using Cons.prems by auto
  next
    case (Inr b)
    show ?thesis
    proof (cases b)
      case False
      then have rec: "checkGeofences rd now ld gs d = (r, msgs, d')" using Cons.prems Inr by simp
      have nt: "\<not> testsInside rd ld g" using Inr False by (simp add: testsInside_def)
      obtain new where new: "geofenceEvents d' = geofenceEvents d @ new"
          "\<forall>e\<in>set new. ev_eventType e = ''entry'' \<and> ev_duration e = None \<and>
                          ev_timestamp e = now \<and> ev_deviceId e = il_deviceId ld \<and>
                          (\<exists>g\<in>set gs. testsInside rd ld g \<and> ev_geofenceId e = gf_id g)"
          "r = None \<longrightarrow>
              (\<forall>la lo. numeric_in rd 10 8 (il_latitude ld) = Some la \<longrightarrow>
                       numeric_in rd 11 8 (il_longitude ld) = Some lo \<longrightarrow>
                 map eventFields new = map (entryFields ld la lo) (filter (testsInside rd ld) gs))"
        using Cons.IH [OF rec] by blast
      have "\<forall>e\<in>set new. ev_eventType e = ''entry'' \<and> ev_duration e = None \<and>
                          ev_timestamp e = now \<and> ev_deviceId e = il_deviceId ld \<and>
                          (\<exists>g\<in>set (g # gs). testsInside rd ld g \<and> ev_geofenceId e = gf_id g)"
        using new(2) by auto
      moreover have "r = None \<longrightarrow>
              (\<forall>la lo. numeric_in rd 10 8 (il_latitude ld) = Some la \<longrightarrow>
                       numeric_in rd 11 8 (il_longitude ld) = Some lo \<longrightarrow>
                 map eventFields new = map (entryFields ld la lo) (filter (testsInside rd ld) (g # gs)))"
        using new(3) nt by simp
      ultimately show ?thesis using new(1) by blast
    next
      case True
      have t: "testsInside rd ld g" using Inr True by (simp add: testsInside_def)
      show ?thesis
      proof (cases "createGeofenceEvent rd now
                  \<lparr>ie_deviceId = il_deviceId ld, ie_geofenceId = gf_id g, ie_eventType = ''entry'',
                   ie_latitude = il_latitude ld, ie_longitude = il_longitude ld, ie_duration = None\<rparr> d")
        case (Inl e)
        then show ?thesis using Cons.prems Inr True by auto
      next
        case ce: (Inr evd)
        obtain ev d1 where evd: "evd = (ev, d1)" by (cases evd)
        obtain r1 m1 d2 where rec: "checkGeofences rd now ld gs d1 = (r1, m1, d2)"
          by (cases "checkGeofences rd now ld gs d1") auto
        obtain la0 lo0 where la0: "numeric_in rd 10 8 (il_latitude ld) = Some la0"
          and lo0: "numeric_in rd 11 8 (il_longitude ld) = Some lo0"
          and cg: "d1 = d\<lparr>geofenceEvents := geofenceEvents d @ [ev],
             geofence_events_id_seq := geofence_events_id_seq d + 1\<rparr>"
          and ef: "eventFields ev = entryFields ld la0 lo0 g"
          and ts: "ev_timestamp ev = now"
          using createGeofenceEvent_Inr [OF ce [unfolded evd]] by (auto simp: entryFields_def)
        have res: "d' = d2" "r = r1" using Cons.prems Inr True ce evd rec by simp_all
        obtain new where new: "geofenceEvents d2 = geofenceEvents d1 @ new"
          "\<forall>e\<in>set new. ev_eventType e = ''entry'' \<and> ev_duration e = None \<and>
                          ev_timestamp e = now \<and> ev_deviceId e = il_deviceId ld \<and>
                          (\<exists>g\<in>set gs. testsInside rd ld g \<and> ev_geofenceId e = gf_id g)"
          "r1 = None \<longrightarrow>
              (\<forall>la lo. numeric_in rd 10 8 (il_latitude ld) = Some la \<longrightarrow>
                       numeric_in rd 11 8 (il_longitude ld) = Some lo \<longrightarrow>
                 map eventFields new = map (entryFields ld la lo) (filter (testsInside rd ld) gs))"
          using Cons.IH [OF rec] by blast
        have ev: "ev_eventType ev = ''entry'' \<and> ev_duration ev = None \<and>
                  ev_deviceId ev = il_deviceId ld \<and> ev_geofenceId ev = gf_id g"
          using ef by (simp add: eventFields_def entryFields_def)
        have "geofenceEvents d' = geofenceEvents d @ (ev # new)"
          using new(1) cg res by simp
        moreover have "\<forall>e\<in>set (ev # new). ev_eventType e = ''entry'' \<and> ev_duration e = None \<and>
                          ev_timestamp e = now \<and> ev_deviceId e = il_deviceId ld \<and>
                          (\<exists>g\<in>set (g # gs). testsInside rd ld g \<and> ev_geofenceId e = gf_id g)"
          using new(2) ev ts t by auto
        moreover have "r = None \<longrightarrow>
              (\<forall>la lo. numeric_in rd 10 8 (il_latitude ld) = Some la \<longrightarrow>
                       numeric_in rd 11 8 (il_longitude ld) = Some lo \<longrightarrow>
                 map eventFields (ev # new) =
                   map (entryFields ld la lo) (filter (testsInside rd ld) (g # gs)))"
          using new(3) ef res t la0 lo0 by simp
        ultimately show ?thesis by blast
      qed
    qed
  qed
qed


lemma createLocation_Inr:
  "createLocation rd now ld d = Inr (loc, d1) \<Longrightarrow>
     \<exists>la lo. numeric_in rd 10 8 (il_latitude ld) = Some la \<and>
             numeric_in rd 11 8 (il_longitude ld) = Some lo \<and>
             d1 = d\<lparr>locations := locations d @ [loc], locations_id_seq := locations_id_seq d + 1\<rparr> \<and>
             loc_deviceId loc = il_deviceId ld \<and> loc_latitude loc = la \<and> loc_longitude loc = lo"
  by (auto simp: createLocation_def Let_def split: option.splits)


lemma createLocation_proj:
  "createLocation rd now ld d = Inr (loc, d1) \<Longrightarrow>
     geofences d1 = geofences d \<and> geofenceEvents d1 = geofenceEvents d \<and> devices d1 = devices d"
  by (auto simp: createLocation_def Let_def split: option.splits)

lemma updateDeviceLastSeen_proj:
  "geofences (updateDeviceLastSeen t i d) = geofences d"
  "locations (updateDeviceLastSeen t i d) = locations d"
  "geofenceEvents (updateDeviceLastSeen t i d) = geofenceEvents d"
  "locations_id_seq (updateDeviceLastSeen t i d) = locations_id_seq d"
  "geofence_events_id_seq (updateDeviceLastSeen t i d) = geofence_events_id_seq d"
  by (simp_all add: updateDeviceLastSeen_def)

lemma getActiveGeofences_cong:
  "geofences d' = geofences d \<Longrightarrow> getActiveGeofences now d' = getActiveGeofences now d"
  by (simp add: getActiveGeofences_def)

text \<open>The shape of an accepted live report.\<close>

lemma postLocations_200:
  assumes "status (fst (postLocations rd now body d)) = 200"
  shows "\<exists>ld loc d1 msgs d3.
           insertLocationSchema body = Inr ld \<and>
           createLocation rd now ld d = Inr (loc, d1) \<and>
           checkGeofences rd now ld (getActiveGeofences now d)
             (updateDeviceLastSeen now (il_deviceId ld) d1) = (None, msgs, d3) \<and>
           postLocations rd now body d = (\<lparr>status = 200, sent = msgs @ [Location_update loc]\<rparr>, d3)"
proof (cases "insertLocationSchema body")
  case (Inl e)
  then show ?thesis using assms by (simp add: postLocations_def)
next
  case (Inr ld)
  show ?thesis
  proof (cases "createLocation rd now ld d")
    case (Inl e)
    then show ?thesis using assms Inr by (simp add: postLocations_def)
  next
    case cl: (Inr x)
    obtain loc d1 where x: "x = (loc, d1)" by (cases x)
    have g: "getActiveGeofences now (updateDeviceLastSeen now (il_deviceId ld) d1) = getActiveGeofences now d"
      using createLocation_proj [OF cl [unfolded x]]
      by (intro getActiveGeofences_cong) (simp add: updateDeviceLastSeen_proj)
    obtain r msgs d3 where cg: "checkGeofences rd now ld (getActiveGeofences now d)
             (updateDeviceLastSeen now (il_deviceId ld) d1) = (r, msgs, d3)"
      by (cases "checkGeofences rd now ld (getActiveGeofences now d)
             (updateDeviceLastSeen now (il_deviceId ld) d1)") auto
    have "r = None" using assms Inr cl x g cg
      by (cases r) (simp_all add: postLocations_def Let_def)
    then show ?thesis using Inr cl x g cg by (simp add: postLocations_def Let_def)
  qed
qed

text \<open>Whatever the outcome, the live route only appends entry events.\<close>

lemma postLocations_appends:
  "\<exists>new. geofenceEvents (snd (postLocations rd now body d)) = geofenceEvents d @ new \<and>
         (\<forall>e\<in>set new. ev_eventType e = ''entry'' \<and> ev_duration e = None \<and> ev_timestamp e = now \<and>
            (\<exists>ld. insertLocationSchema body = Inr ld \<and> ev_deviceId e = il_deviceId ld \<and>
               (\<exists>g\<in>set (getActiveGeofences now d). testsInside rd ld g \<and> ev_geofenceId e = gf_id g)))"
proof (cases "insertLocationSchema body")
  case (Inl e)
  then show ?thesis by (simp add: postLocations_def)
next
  case (Inr ld)
  show ?thesis
  proof (cases "createLocation rd now ld d")
    case (Inl e)
    then show ?thesis using Inr by (simp add: postLocations_def)
  next
    case cl: (Inr x)
    obtain loc d1 where x: "x = (loc, d1)" by (cases x)
    let ?d2 = "updateDeviceLastSeen now (il_deviceId ld) d1"
    have ev: "geofenceEvents ?d2 = geofenceEvents d"
      using createLocation_proj [OF cl [unfolded x]] by (simp add: updateDeviceLastSeen_proj)
    have g: "getActiveGeofences now ?d2 = getActiveGeofences now d"
      using createLocation_proj [OF cl [unfolded x]]
      by (intro getActiveGeofences_cong) (simp add: updateDeviceLastSeen_proj)
    obtain r msgs d3 where cg: "checkGeofences rd now ld (getActiveGeofences now d) ?d2 = (r, msgs, d3)"
      by (cases "checkGeofences rd now ld (getActiveGeofences now d) ?d2") auto
    have s: "snd (postLocations rd now body d) = d3"
      using Inr cl x cg g by (cases r) (simp_all add: postLocations_def Let_def)
    obtain new where new: "geofenceEvents d3 = geofenceEvents ?d2 @ new"
      "\<forall>e\<in>set new. ev_eventType e = ''entry'' \<and> ev_duration e = None \<and>
                          ev_timestamp e = now \<and> ev_deviceId e = il_deviceId ld \<and>
                          (\<exists>g\<in>set (getActiveGeofences now d). testsInside rd ld g \<and> ev_geofenceId e = gf_id g)"
      using checkGeofences_events [OF cg] by blast
    have "\<forall>e\<in>set new. ev_eventType e = ''entry'' \<and> ev_duration e = None \<and> ev_timestamp e = now \<and>
            (\<exists>ld. insertLocationSchema body = Inr ld \<and> ev_deviceId e = il_deviceId ld \<and>
               (\<exists>g\<in>set (getActiveGeofences now d). testsInside rd ld g \<and> ev_geofenceId e = gf_id g))"
      using new(2) Inr by simp
    then show ?thesis using new(1) unfolding s ev by blast
  qed
qed

lemma postLocations_new_events:
  assumes "status (fst (postLocations rd now body d)) = 200" "insertLocationSchema body = Inr ld"
  shows "\<exists>la lo new.
           numeric_in rd 10 8 (il_latitude ld) = Some la \<and>
           numeric_in rd 11 8 (il_longitude ld) = Some lo \<and>
           geofenceEvents (snd (postLocations rd now body d)) = geofenceEvents d @ new \<and>
           map eventFields new =
             map (entryFields ld la lo) (filter (testsInside rd ld) (getActiveGeofences now d))"
proof -
  obtain ld' loc d1 msgs d3 where h: "insertLocationSchema body = Inr ld'"
    "createLocation rd now ld' d = Inr (loc, d1)"
    "checkGeofences rd now ld' (getActiveGeofences now d)
             (updateDeviceLastSeen now (il_deviceId ld') d1) = (None, msgs, d3)"
    "postLocations rd now body d = (\<lparr>status = 200, sent = msgs @ [Location_update loc]\<rparr>, d3)"
    using postLocations_200 [OF assms(1)] by blast
  have ld: "ld' = ld" using h(1) assms(2) by simp
  obtain la lo where n: "numeric_in rd 10 8 (il_latitude ld) = Some la"
    "numeric_in rd 11 8 (il_longitude ld) = Some lo"
    using createLocation_Inr [OF h(2)] ld by blast
  have ev: "geofenceEvents (updateDeviceLastSeen now (il_deviceId ld) d1) = geofenceEvents d"
    using createLocation_proj [OF h(2)] by (simp add: updateDeviceLastSeen_proj)
  obtain new where new: "geofenceEvents d3 = geofenceEvents d @ new"
    "map eventFields new =
       map (entryFields ld la lo) (filter (testsInside rd ld) (getActiveGeofences now d))"
    using checkGeofences_events [OF h(3)] n ev unfolding ld by auto
  show ?thesis using n new h(4) by auto
qed



section \<open>The example database\<close>

lemma schema_ex:
  "insertLocationSchema (ex_report la lo) =
     Inr \<lparr>il_deviceId = 1, il_latitude = la, il_longitude = lo, il_accuracy = None,
          il_isOfflineRecord = None\<rparr>"
  by (simp add: insertLocationSchema_def ex_report_def zodInt_def)

lemma square_ex:
  "isPointInGeofence \<lparr>lat = Num 5, lng = Num 5\<rparr> (gf_coordinates ex_geofence) = Inr True"
  "isPointInGeofence \<lparr>lat = Num 20, lng = Num 20\<rparr> (gf_coordinates ex_geofence) = Inr False"
  "isPointInGeofence \<lparr>lat = Num 95, lng = Num 200\<rparr> (gf_coordinates ex_geofence) = Inr False"
  by (simp_all add: ex_geofence_def polygonLoop_unfold edgeTest_def)

lemma active_ex: "geofences d = [ex_geofence] \<Longrightarrow> getActiveGeofences t d = [ex_geofence]"
  by (simp add: getActiveGeofences_def ex_geofence_def)

lemma post_inside:
  assumes "geofences d = [ex_geofence]"
  shows "status (fst (postLocations node_postgres t (ex_report ''5'' ''5'') d)) = 200"
    and "geofenceEvents (snd (postLocations node_postgres t (ex_report ''5'' ''5'') d)) =
           geofenceEvents d @
             [\<lparr>ev_id = geofence_events_id_seq d, ev_deviceId = 1, ev_geofenceId = 1,
               ev_eventType = ''entry'', ev_latitude = ''5.00000000'',
               ev_longitude = ''5.00000000'', ev_timestamp = t, ev_duration = None\<rparr>]"
    and "geofences (snd (postLocations node_postgres t (ex_report ''5'' ''5'') d)) = [ex_geofence]"
    and "length (locations (snd (postLocations node_postgres t (ex_report ''5'' ''5'') d))) =
           length (locations d) + 1"
proof -
  have a: "getActiveGeofences t (updateDeviceLastSeen t 1
             (d\<lparr>locations := locs, locations_id_seq := n\<rparr>)) = [ex_geofence]" for locs n
    using assms by (intro active_ex) (simp add: updateDeviceLastSeen_def)
  have g: "gf_id ex_geofence = 1" by (simp add: ex_geofence_def)
  show "status (fst (postLocations node_postgres t (ex_report ''5'' ''5'') d)) = 200"
    by (simp add: postLocations_def schema_ex createLocation_def numeric_in_ex Let_def a
        parse_float_ex square_ex createGeofenceEvent_def)
  show "geofenceEvents (snd (postLocations node_postgres t (ex_report ''5'' ''5'') d)) =
           geofenceEvents d @
             [\<lparr>ev_id = geofence_events_id_seq d, ev_deviceId = 1, ev_geofenceId = 1,
               ev_eventType = ''entry'', ev_latitude = ''5.00000000'',
               ev_longitude = ''5.00000000'', ev_timestamp = t, ev_duration = None\<rparr>]"
    by (simp add: postLocations_def schema_ex createLocation_def numeric_in_ex Let_def a
        parse_float_ex square_ex createGeofenceEvent_def g updateDeviceLastSeen_proj)
  show "geofences (snd (postLocations node_postgres t (ex_report ''5'' ''5'') d)) = [ex_geofence]"
    using assms
    by (simp add: postLocations_def schema_ex createLocation_def numeric_in_ex Let_def a
        parse_float_ex square_ex createGeofenceEvent_def g updateDeviceLastSeen_proj)
  show "length (locations (snd (postLocations node_postgres t (ex_report ''5'' ''5'') d))) =
          length (locations d) + 1"
    by (simp add: postLocations_def schema_ex createLocation_def numeric_in_ex Let_def a
        parse_float_ex square_ex createGeofenceEvent_def g updateDeviceLastSeen_proj)
qed

lemma post_outside:
  assumes "geofences d = [ex_geofence]"
  shows "status (fst (postLocations node_postgres t (ex_report ''20'' ''20'') d)) = 200"
    and "geofenceEvents (snd (postLocations node_postgres t (ex_report ''20'' ''20'') d)) =
           geofenceEvents d"
proof -
  have a: "getActiveGeofences t (updateDeviceLastSeen t 1
             (d\<lparr>locations := locs, locations_id_seq := n\<rparr>)) = [ex_geofence]" for locs n
    using assms by (intro active_ex) (simp add: updateDeviceLastSeen_def)
  show "status (fst (postLocations node_postgres t (ex_report ''20'' ''20'') d)) = 200"
    by (simp add: postLocations_def schema_ex createLocation_def numeric_in_ex Let_def a
        parse_float_ex square_ex)
  show "geofenceEvents (snd (postLocations node_postgres t (ex_report ''20'' ''20'') d)) =
          geofenceEvents d"
    by (simp add: postLocations_def schema_ex createLocation_def numeric_in_ex Let_def a
        parse_float_ex square_ex updateDeviceLastSeen_proj)
qed

lemma post_out_of_range:
  assumes "geofences d = [ex_geofence]"
  shows "status (fst (postLocations node_postgres t (ex_report ''95'' ''200'') d)) = 200"
    and "locations (snd (postLocations node_postgres t (ex_report ''95'' ''200'') d)) =
           locations d @
             [\<lparr>loc_id = locations_id_seq d, loc_deviceId = 1, loc_latitude = ''95.00000000'',
               loc_longitude = ''200.00000000'', loc_accuracy = None, loc_timestamp = t,
               loc_isOfflineRecord = False, loc_syncedAt = None\<rparr>]"
    and "sent (fst (postLocations node_postgres t (ex_report ''95'' ''200'') d)) =
           [Location_update
             \<lparr>loc_id = locations_id_seq d, loc_deviceId = 1, loc_latitude = ''95.00000000'',
               loc_longitude = ''200.00000000'', loc_accuracy = None, loc_timestamp = t,
               loc_isOfflineRecord = False, loc_syncedAt = None\<rparr>]"
proof -
  have a: "getActiveGeofences t (updateDeviceLastSeen t 1
             (d\<lparr>locations := locs, locations_id_seq := n\<rparr>)) = [ex_geofence]" for locs n
    using assms by (intro active_ex) (simp add: updateDeviceLastSeen_def)
  show "status (fst (postLocations node_postgres t (ex_report ''95'' ''200'') d)) = 200"
    by (simp add: postLocations_def schema_ex createLocation_def numeric_in_ex Let_def a
        parse_float_ex square_ex)
  show "locations (snd (postLocations node_postgres t (ex_report ''95'' ''200'') d)) =
           locations d @
             [\<lparr>loc_id = locations_id_seq d, loc_deviceId = 1, loc_latitude = ''95.00000000'',
               loc_longitude = ''200.00000000'', loc_accuracy = None, loc_timestamp = t,
               loc_isOfflineRecord = False, loc_syncedAt = None\<rparr>]"
    by (simp add: postLocations_def schema_ex createLocation_def numeric_in_ex Let_def a
        parse_float_ex square_ex updateDeviceLastSeen_proj)
  show "sent (fst (postLocations node_postgres t (ex_report ''95'' ''200'') d)) =
           [Location_update
             \<lparr>loc_id = locations_id_seq d, loc_deviceId = 1, loc_latitude = ''95.00000000'',
               loc_longitude = ''200.00000000'', loc_accuracy = None, loc_timestamp = t,
               loc_isOfflineRecord = False, loc_syncedAt = None\<rparr>]"
    by (simp add: postLocations_def schema_ex createLocation_def numeric_in_ex Let_def a
        parse_float_ex square_ex updateDeviceLastSeen_proj)
qed

lemma ex_db_geofences: "geofences ex_db = [ex_geofence]" "geofenceEvents ex_db = []"
  "locations ex_db = []" "geofence_events_id_seq ex_db = 1" "locations_id_seq ex_db = 1"
  by (simp_all add: ex_db_def)

lemma ex_db1_facts:
  "geofences ex_db1 = [ex_geofence]"
  "geofenceEvents ex_db1 =
     [\<lparr>ev_id = 1, ev_deviceId = 1, ev_geofenceId = 1, ev_eventType = ''entry'',
       ev_latitude = ''5.00000000'', ev_longitude = ''5.00000000'', ev_timestamp = 1000,
       ev_duration = None\<rparr>]"
  using post_inside [OF ex_db_geofences(1), of 1000]
  by (simp_all add: ex_db1_def ex_inside_def ex_db_geofences)

lemma testsInside_ex:
  "testsInside node_postgres
     \<lparr>il_deviceId = 1, il_latitude = ''5'', il_longitude = ''5'', il_accuracy = None,
       il_isOfflineRecord = None\<rparr> ex_geofence"
  "\<not> testsInside node_postgres
     \<lparr>il_deviceId = 1, il_latitude = ''20'', il_longitude = ''20'', il_accuracy = None,
       il_isOfflineRecord = None\<rparr> ex_geofence"
  by (simp_all add: testsInside_def parse_float_ex square_ex)

lemma entries_ex:
  "entryFields \<lparr>il_deviceId = 1, il_latitude = ''5'', il_longitude = ''5'', il_accuracy = None,
          il_isOfflineRecord = None\<rparr> la lo ex_geofence = (1, 1, ''entry'', la, lo, None)"
  by (simp add: entryFields_def ex_geofence_def)

section \<open>Claims about the live route\<close>

text \<open>
  C1, as the specification states it, fails: two consecutive reports inside the same geofence
  create two entry events for the same device and geofence, so the events of that pair do
  not alternate between entry and exit.
\<close>

theorem alternation_counterexample:
  "map ev_eventType (eventsFor 1 1 (snd (postLocations node_postgres 2000 ex_inside ex_db1))) =
     [''entry'', ''entry''] \<and>
   \<not> alternates (map ev_eventType (eventsFor 1 1 (snd (postLocations node_postgres 2000 ex_inside ex_db1))))"
  using post_inside(2) [OF ex_db1_facts(1), of 2000]
  by (simp add: ex_inside_def ex_db1_facts eventsFor_def)

text \<open>
  C1, amended. Every accepted report (status 200) creates exactly one entry event for each
  active geofence on which the containment test of the server, \<open>isPointInGeofence\<close>,
  answers true for the coordinates of the report, in the order of the active geofences. The
  event carries the device of the report, the id of the geofence, and the coordinates as the
  decimal columns store them. The events that existed before stay as they are. Membership is
  not tracked: what a report creates is determined by the report and the active geofences
  and does not depend on earlier reports, so a second report inside the same geofence
  creates a second entry event.
\<close>

theorem live_entry_per_tested_geofence:
  "status (fst (postLocations rd now body d)) = 200 \<Longrightarrow> insertLocationSchema body = Inr ld \<Longrightarrow>
     \<exists>latitude longitude.
       numeric_in rd 10 8 (il_latitude ld) = Some latitude \<and>
       numeric_in rd 11 8 (il_longitude ld) = Some longitude \<and>
       take (length (geofenceEvents d)) (geofenceEvents (snd (postLocations rd now body d))) =
         geofenceEvents d \<and>
       map eventFields
         (drop (length (geofenceEvents d)) (geofenceEvents (snd (postLocations rd now body d)))) =
         map (\<lambda>g. (il_deviceId ld, gf_id g, ''entry'', latitude, longitude, None))
           (filter (testsInside rd ld) (getActiveGeofences now d))"
proof -
  assume a: "status (fst (postLocations rd now body d)) = 200" "insertLocationSchema body = Inr ld"
  obtain la lo new where h: "numeric_in rd 10 8 (il_latitude ld) = Some la"
    "numeric_in rd 11 8 (il_longitude ld) = Some lo"
    "geofenceEvents (snd (postLocations rd now body d)) = geofenceEvents d @ new"
    "map eventFields new =
       map (entryFields ld la lo) (filter (testsInside rd ld) (getActiveGeofences now d))"
    using postLocations_new_events [OF a] by blast
  have e: "entryFields ld la lo = (\<lambda>g. (il_deviceId ld, gf_id g, ''entry'', la, lo, None))"
    by (rule ext) (simp add: entryFields_def)
  show ?thesis
    using h by (simp add: e)
qed

theorem live_entry_per_tested_geofence_witness:
  "status (fst (postLocations node_postgres 2000 ex_inside ex_db1)) = 200 \<and>
   insertLocationSchema ex_inside =
     Inr \<lparr>il_deviceId = 1, il_latitude = ''5'', il_longitude = ''5'', il_accuracy = None,
          il_isOfflineRecord = None\<rparr> \<and>
   numeric_in node_postgres 10 8 ''5'' = Some ''5.00000000'' \<and>
   numeric_in node_postgres 11 8 ''5'' = Some ''5.00000000'' \<and>
   take (length (geofenceEvents ex_db1))
        (geofenceEvents (snd (postLocations node_postgres 2000 ex_inside ex_db1))) =
     geofenceEvents ex_db1 \<and>
   map eventFields (drop (length (geofenceEvents ex_db1))
                         (geofenceEvents (snd (postLocations node_postgres 2000 ex_inside ex_db1)))) =
     [(1, 1, ''entry'', ''5.00000000'', ''5.00000000'', None)]"
proof -
  have s: "status (fst (postLocations node_postgres 2000 ex_inside ex_db1)) = 200"
    using post_inside(1) [OF ex_db1_facts(1)] by (simp add: ex_inside_def)
  have p: "insertLocationSchema ex_inside =
     Inr \<lparr>il_deviceId = 1, il_latitude = ''5'', il_longitude = ''5'', il_accuracy = None,
          il_isOfflineRecord = None\<rparr>"
    by (simp add: ex_inside_def schema_ex)
  have g: "gf_id ex_geofence = 1"
    by (simp add: ex_geofence_def)
  show ?thesis
    using live_entry_per_tested_geofence [OF s p] s p
    by (simp add: active_ex [OF ex_db1_facts(1)] testsInside_ex numeric_in_ex g)
qed




text \<open>
  C3, as the specification states it, fails: the device has an entry event for the geofence,
  the next report places it outside and is accepted, and no event is created; there is no
  exit event and no duration.
\<close>

theorem no_exit_counterexample:
  "map ev_eventType (eventsFor 1 1 ex_db1) = [''entry''] \<and>
   status (fst (postLocations node_postgres 2000 ex_outside ex_db1)) = 200 \<and>
   geofenceEvents (snd (postLocations node_postgres 2000 ex_outside ex_db1)) = geofenceEvents ex_db1"
  using post_outside [OF ex_db1_facts(1), of 2000]
  by (simp add: ex_outside_def ex_db1_facts eventsFor_def)

text \<open>
  C3, amended. The live route never creates an exit event and never computes a duration.
  Whatever the report and whatever the answer, the earlier events are unchanged, and every
  event that is added has the type \<open>entry\<close>, no duration, the time of the database clock
  as its timestamp, the device of the report, and the id of an active geofence on which the
  containment test of the server answered true for the report. So a report for which the
  test answers true on no active geofence adds no event, whether or not the device has an
  entry event for a geofence.
\<close>

theorem live_events_only_entry:
  "take (length (geofenceEvents d)) (geofenceEvents (snd (postLocations rd now body d))) =
     geofenceEvents d \<and>
   (\<forall>e \<in> set (drop (length (geofenceEvents d)) (geofenceEvents (snd (postLocations rd now body d)))).
      ev_eventType e = ''entry'' \<and> ev_duration e = None \<and> ev_timestamp e = now \<and>
      (\<exists>ld. insertLocationSchema body = Inr ld \<and> ev_deviceId e = il_deviceId ld \<and>
         (\<exists>g \<in> set (getActiveGeofences now d). testsInside rd ld g \<and> ev_geofenceId e = gf_id g))) \<and>
   ((\<forall>ld. insertLocationSchema body = Inr ld \<longrightarrow>
        (\<forall>g \<in> set (getActiveGeofences now d). \<not> testsInside rd ld g)) \<longrightarrow>
      geofenceEvents (snd (postLocations rd now body d)) = geofenceEvents d)"
proof -
  obtain new where new:
    "geofenceEvents (snd (postLocations rd now body d)) = geofenceEvents d @ new"
    "\<forall>e\<in>set new. ev_eventType e = ''entry'' \<and> ev_duration e = None \<and> ev_timestamp e = now \<and>
            (\<exists>ld. insertLocationSchema body = Inr ld \<and> ev_deviceId e = il_deviceId ld \<and>
               (\<exists>g\<in>set (getActiveGeofences now d). testsInside rd ld g \<and> ev_geofenceId e = gf_id g))"
    using postLocations_appends [of rd now body d] by blast
  have "new = []"
    if "\<forall>ld. insertLocationSchema body = Inr ld \<longrightarrow>
          (\<forall>g \<in> set (getActiveGeofences now d). \<not> testsInside rd ld g)"
  proof (cases new)
    case Nil
    then show ?thesis .
  next
    case (Cons e es)
    then have "e \<in> set new" by simp
    then obtain ld g where "insertLocationSchema body = Inr ld"
      "g \<in> set (getActiveGeofences now d)" "testsInside rd ld g"
      using new(2) by blast
    then show ?thesis using that by blast
  qed
  then show ?thesis using new by simp
qed

theorem live_events_only_entry_witness:
  "map (\<lambda>e. (ev_eventType e, ev_duration e, ev_timestamp e, ev_deviceId e, ev_geofenceId e))
     (drop (length (geofenceEvents ex_db))
           (geofenceEvents (snd (postLocations node_postgres 1000 ex_inside ex_db))))
     = [(''entry'', None, 1000, 1, 1)] \<and>
   take (length (geofenceEvents ex_db))
        (geofenceEvents (snd (postLocations node_postgres 1000 ex_inside ex_db)))
     = geofenceEvents ex_db \<and>
   insertLocationSchema ex_inside =
     Inr \<lparr>il_deviceId = 1, il_latitude = ''5'', il_longitude = ''5'', il_accuracy = None,
          il_isOfflineRecord = None\<rparr> \<and>
   getActiveGeofences 1000 ex_db = [ex_geofence] \<and>
   testsInside node_postgres
     \<lparr>il_deviceId = 1, il_latitude = ''5'', il_longitude = ''5'', il_accuracy = None,
       il_isOfflineRecord = None\<rparr> ex_geofence \<and>
   gf_id ex_geofence = 1 \<and>
   insertLocationSchema ex_outside =
     Inr \<lparr>il_deviceId = 1, il_latitude = ''20'', il_longitude = ''20'', il_accuracy = None,
          il_isOfflineRecord = None\<rparr> \<and>
   getActiveGeofences 2000 ex_db1 = [ex_geofence] \<and>
   \<not> testsInside node_postgres
     \<lparr>il_deviceId = 1, il_latitude = ''20'', il_longitude = ''20'', il_accuracy = None,
       il_isOfflineRecord = None\<rparr> ex_geofence \<and>
   geofenceEvents (snd (postLocations node_postgres 2000 ex_outside ex_db1)) = geofenceEvents ex_db1"
proof -
  have e: "drop (length (geofenceEvents ex_db))
                (geofenceEvents (snd (postLocations node_postgres 1000 ex_inside ex_db))) =
             [\<lparr>ev_id = 1, ev_deviceId = 1, ev_geofenceId = 1, ev_eventType = ''entry'',
               ev_latitude = ''5.00000000'', ev_longitude = ''5.00000000'', ev_timestamp = 1000,
               ev_duration = None\<rparr>]"
    using ex_db1_facts(2) by (simp add: ex_db1_def ex_db_geofences)
  have g: "gf_id ex_geofence = 1"
    by (simp add: ex_geofence_def)
  have o: "geofenceEvents (snd (postLocations node_postgres 2000 ex_outside ex_db1)) =
             geofenceEvents ex_db1"
    using live_events_only_entry [of ex_db1 node_postgres 2000 ex_outside]
    by (simp add: ex_outside_def schema_ex active_ex [OF ex_db1_facts(1)] testsInside_ex)
  show ?thesis
    using live_events_only_entry [of ex_db node_postgres 1000 ex_inside] o unfolding e
    by (simp add: ex_inside_def ex_outside_def schema_ex active_ex ex_db_geofences
        ex_db1_facts(1) testsInside_ex g)
qed

section \<open>The batch route\<close>

text \<open>
  The row that the batch insert stores for the report at position \<open>i\<close> of an accepted
  batch: the next ids of the sequence in the order of the batch, the coordinates as the
  columns store them, the defaults of the table, and \<open>syncedAt\<close> set.
\<close>

lemma syncedRows_Some:
  "syncedRows rd now i ls = Some rows \<Longrightarrow>
     list_all (\<lambda>l. numeric_in rd 10 8 (il_latitude l) \<noteq> None \<and>
                   numeric_in rd 11 8 (il_longitude l) \<noteq> None) ls \<and>
     rows = map (\<lambda>(k, l).
                 \<lparr>loc_id = i + int k,
                  loc_deviceId = il_deviceId l,
                  loc_latitude = the (numeric_in rd 10 8 (il_latitude l)),
                  loc_longitude = the (numeric_in rd 11 8 (il_longitude l)),
                  loc_accuracy = il_accuracy l,
                  loc_timestamp = now,
                  loc_isOfflineRecord = (il_isOfflineRecord l = Some True),
                  loc_syncedAt = Some now\<rparr>) (enumerate 0 ls)"
proof (induction ls arbitrary: i rows)
  case Nil
  then show ?case by simp
next
  case (Cons l ls)
  from Cons.prems obtain la lo rest where h:
    "numeric_in rd 10 8 (il_latitude l) = Some la" "numeric_in rd 11 8 (il_longitude l) = Some lo"
    "syncedRows rd now (i + 1) ls = Some rest"
    "rows = \<lparr>loc_id = i, loc_deviceId = il_deviceId l, loc_latitude = la, loc_longitude = lo,
             loc_accuracy = il_accuracy l, loc_timestamp = now,
             loc_isOfflineRecord = (case il_isOfflineRecord l of None \<Rightarrow> False | Some b \<Rightarrow> b),
             loc_syncedAt = Some now\<rparr> # rest"
    by (auto split: option.splits)
  have b: "(case il_isOfflineRecord l of None \<Rightarrow> False | Some b \<Rightarrow> b) = (il_isOfflineRecord l = Some True)"
    by (cases "il_isOfflineRecord l") auto
  have m: "map (\<lambda>(k, l). f (i + 1 + int k) l) (enumerate 0 ls) =
           map (\<lambda>(k, l). f (i + int k) l) (enumerate (Suc 0) ls)" for f :: "int \<Rightarrow> InsertLocation \<Rightarrow> Location"
    by (simp add: enumerate_eq_zip map_zip_map [symmetric] del: upt_Suc)
       (simp add: map_Suc_upt [symmetric] zip_map1 split_beta add.assoc del: upt_Suc)
  show ?case
    using Cons.IH [OF h(3)] h(1,2,4) b
    by (simp add: m [where f = "\<lambda>j l. \<lparr>loc_id = j,
                  loc_deviceId = il_deviceId l,
                  loc_latitude = the (numeric_in rd 10 8 (il_latitude l)),
                  loc_longitude = the (numeric_in rd 11 8 (il_longitude l)),
                  loc_accuracy = il_accuracy l,
                  loc_timestamp = now,
                  loc_isOfflineRecord = (il_isOfflineRecord l = Some True),
                  loc_syncedAt = Some now\<rparr>"])
qed

lemma syncOfflineLocations_Inr:
  "syncOfflineLocations rd now ls d = Inr (rows, d') \<Longrightarrow>
     geofenceEvents d' = geofenceEvents d \<and> devices d' = devices d \<and>
     geofences d' = geofences d \<and>
     locations d' = locations d @ rows \<and>
     syncedRows rd now (locations_id_seq d) ls = Some rows"
  by (auto simp: syncOfflineLocations_def Let_def split: if_splits option.splits)

text \<open>
  C4, as the specification states it, fails: one report inside the geofence creates an entry
  event when it is sent to the live route and none when it is sent to the batch route.
\<close>

theorem batch_live_counterexample:
  "status (fst (postLocationsSync node_postgres 1000 (JArray [ex_inside]) ex_db)) = 200 \<and>
   geofenceEvents (snd (postLocationsSync node_postgres 1000 (JArray [ex_inside]) ex_db)) = [] \<and>
   map ev_eventType (geofenceEvents (snd (postLocations node_postgres 1000 ex_inside ex_db))) =
     [''entry'']"
  using ex_db1_facts(2)
  by (simp add: ex_db1_def postLocationsSync_def insertLocationArraySchema_def ex_inside_def
      schema_ex syncOfflineLocations_def numeric_in_ex Let_def ex_db_geofences)

text \<open>
  C4, amended. The batch route evaluates no geofence and sorts nothing: whatever the batch,
  it creates no geofence event and leaves the devices and the geofences as they are. When it
  accepts a batch (status 200), the database accepted every coordinate of it, the earlier
  location rows are unchanged, and one row is added for each report, in the order in which
  the reports were sent: the row takes the next id of the sequence, the device and the
  accuracy of the report, the coordinates as the decimal columns store them, the time of
  the clock as \<open>timestamp\<close> and as \<open>syncedAt\<close>, and \<open>isOfflineRecord\<close> as sent, false when
  absent.
\<close>

theorem batch_creates_no_events:
  "geofenceEvents (snd (postLocationsSync rd now body d)) = geofenceEvents d \<and>
   devices (snd (postLocationsSync rd now body d)) = devices d \<and>
   geofences (snd (postLocationsSync rd now body d)) = geofences d \<and>
   (status (fst (postLocationsSync rd now body d)) = 200 \<longrightarrow>
      (\<exists>ls. insertLocationArraySchema body = Inr ls \<and>
            list_all (\<lambda>l. numeric_in rd 10 8 (il_latitude l) \<noteq> None \<and>
                          numeric_in rd 11 8 (il_longitude l) \<noteq> None) ls \<and>
            take (length (locations d)) (locations (snd (postLocationsSync rd now body d))) =
              locations d \<and>
            drop (length (locations d)) (locations (snd (postLocationsSync rd now body d))) =
              map (\<lambda>(k, l).
                    \<lparr>loc_id = locations_id_seq d + int k,
                     loc_deviceId = il_deviceId l,
                     loc_latitude = the (numeric_in rd 10 8 (il_latitude l)),
                     loc_longitude = the (numeric_in rd 11 8 (il_longitude l)),
                     loc_accuracy = il_accuracy l,
                     loc_timestamp = now,
                     loc_isOfflineRecord = (il_isOfflineRecord l = Some True),
                     loc_syncedAt = Some now\<rparr>) (enumerate 0 ls)))"
proof (cases "insertLocationArraySchema body")
  case (Inl e)
  then show ?thesis by (simp add: postLocationsSync_def)
next
  case (Inr ls)
  show ?thesis
  proof (cases "syncOfflineLocations rd now ls d")
    case (Inl e)
    then show ?thesis using Inr by (simp add: postLocationsSync_def)
  next
    case s: (Inr x)
    obtain rows d' where x: "x = (rows, d')" by (cases x)
    have r: "snd (postLocationsSync rd now body d) = d'"
      using Inr s x by (simp add: postLocationsSync_def)
    have f: "geofenceEvents d' = geofenceEvents d" "devices d' = devices d"
      "geofences d' = geofences d" "locations d' = locations d @ rows"
      "syncedRows rd now (locations_id_seq d) ls = Some rows"
      using syncOfflineLocations_Inr [OF s [unfolded x]] by simp_all
    show ?thesis
      unfolding r using f(1-4) syncedRows_Some [OF f(5)] Inr by simp
  qed
qed

theorem batch_creates_no_events_witness:
  "status (fst (postLocationsSync node_postgres 1000 (JArray [ex_outside, ex_inside]) ex_db)) = 200 \<and>
   locations (snd (postLocationsSync node_postgres 1000 (JArray [ex_outside, ex_inside]) ex_db)) =
     [\<lparr>loc_id = 1, loc_deviceId = 1, loc_latitude = ''20.00000000'',
       loc_longitude = ''20.00000000'', loc_accuracy = None, loc_timestamp = 1000,
       loc_isOfflineRecord = False, loc_syncedAt = Some 1000\<rparr>,
      \<lparr>loc_id = 2, loc_deviceId = 1, loc_latitude = ''5.00000000'',
       loc_longitude = ''5.00000000'', loc_accuracy = None, loc_timestamp = 1000,
       loc_isOfflineRecord = False, loc_syncedAt = Some 1000\<rparr>] \<and>
   geofenceEvents (snd (postLocationsSync node_postgres 1000 (JArray [ex_outside, ex_inside]) ex_db)) = [] \<and>
   devices (snd (postLocationsSync node_postgres 1000 (JArray [ex_outside, ex_inside]) ex_db)) =
     [ex_device]"
proof -
  have p: "insertLocationArraySchema (JArray [ex_outside, ex_inside]) =
      Inr [\<lparr>il_deviceId = 1, il_latitude = ''20'', il_longitude = ''20'', il_accuracy = None,
             il_isOfflineRecord = None\<rparr>,
           \<lparr>il_deviceId = 1, il_latitude = ''5'', il_longitude = ''5'', il_accuracy = None,
             il_isOfflineRecord = None\<rparr>]"
    by (simp add: insertLocationArraySchema_def ex_outside_def ex_inside_def schema_ex)
  have s: "status (fst (postLocationsSync node_postgres 1000 (JArray [ex_outside, ex_inside]) ex_db)) = 200"
    by (simp add: postLocationsSync_def p syncOfflineLocations_def numeric_in_ex Let_def)
  have d: "devices ex_db = [ex_device]"
    by (simp add: ex_db_def)
  show ?thesis
    using batch_creates_no_events [of node_postgres 1000 "JArray [ex_outside, ex_inside]" ex_db] s
    by (simp add: p ex_db_geofences d numeric_in_ex enumerate_eq_zip upt_rec)
qed

section \<open>Validation of a report\<close>

lemma zodString_None: "\<forall>s. x \<noteq> Some (JString s) \<Longrightarrow> zodString x = None"
  by (cases x rule: zodString.cases) simp_all

lemma schema_needs_strings:
  assumes "(\<forall>s. getProp ''latitude'' body \<noteq> Some (JString s)) \<or>
           (\<forall>s. getProp ''longitude'' body \<noteq> Some (JString s))"
  shows "insertLocationSchema body = Inl ZodError"
proof -
  have d: "zodString (getProp ''latitude'' body) = None \<or> zodString (getProp ''longitude'' body) = None"
    using assms
  proof
    assume "\<forall>s. getProp ''latitude'' body \<noteq> Some (JString s)"
    then show ?thesis by (simp add: zodString_None)
  next
    assume "\<forall>s. getProp ''longitude'' body \<noteq> Some (JString s)"
    then show ?thesis by (simp add: zodString_None)
  qed
  show ?thesis
  proof (cases body)
    case (JObject kvs)
    from d show ?thesis
    proof
      assume "zodString (getProp ''latitude'' body) = None"
      then show ?thesis unfolding insertLocationSchema_def JObject
        by (simp split: option.split)
    next
      assume "zodString (getProp ''longitude'' body) = None"
      then show ?thesis unfolding insertLocationSchema_def JObject
        by (simp split: option.split)
    qed
  qed (simp_all add: insertLocationSchema_def)
qed

text \<open>
  Spellings that both readers accept are accepted by the route: a leading blank and an
  exponent read as the number five, and \<open>NaN\<close> is stored and lies in no geofence.
\<close>

lemma post_spellings:
  "status (fst (postLocations node_postgres 1000 (ex_report '' 5'' ''5e0'') ex_db)) = 200"
  "geofenceEvents (snd (postLocations node_postgres 1000 (ex_report '' 5'' ''5e0'') ex_db)) =
     [\<lparr>ev_id = 1, ev_deviceId = 1, ev_geofenceId = 1, ev_eventType = ''entry'',
       ev_latitude = ''5.00000000'', ev_longitude = ''5.00000000'', ev_timestamp = 1000,
       ev_duration = None\<rparr>]"
  "status (fst (postLocations node_postgres 1000 (ex_report ''NaN'' ''5'') ex_db)) = 200"
  "geofenceEvents (snd (postLocations node_postgres 1000 (ex_report ''NaN'' ''5'') ex_db)) = []"
  "map loc_latitude (locations (snd (postLocations node_postgres 1000 (ex_report ''NaN'' ''5'') ex_db))) =
     [''NaN'']"
proof -
  have a: "getActiveGeofences 1000 (updateDeviceLastSeen 1000 1
             (ex_db\<lparr>locations := locs, locations_id_seq := n\<rparr>)) = [ex_geofence]" for locs n
    by (intro active_ex) (simp add: updateDeviceLastSeen_def ex_db_geofences)
  have g: "gf_id ex_geofence = 1" by (simp add: ex_geofence_def)
  have r: "numeric_in node_postgres 10 8 '' 5'' = Some ''5.00000000''"
    "numeric_in node_postgres 11 8 ''5e0'' = Some ''5.00000000''"
    "numeric_in node_postgres 10 8 ''NaN'' = Some ''NaN''"
    "parse_float node_postgres '' 5'' = Num 5" "parse_float node_postgres ''5e0'' = Num 5"
    "parse_float node_postgres ''NaN'' = NaN"
    by (simp_all add: node_postgres_def spellings_ex)
  have n: "isPointInGeofence \<lparr>lat = NaN, lng = Num 5\<rparr> (gf_coordinates ex_geofence) = Inr False"
    by (simp add: ex_geofence_def polygonLoop_unfold edgeTest_def)
  show "status (fst (postLocations node_postgres 1000 (ex_report '' 5'' ''5e0'') ex_db)) = 200"
    by (simp add: postLocations_def schema_ex createLocation_def r Let_def a square_ex
        createGeofenceEvent_def)
  show "geofenceEvents (snd (postLocations node_postgres 1000 (ex_report '' 5'' ''5e0'') ex_db)) =
     [\<lparr>ev_id = 1, ev_deviceId = 1, ev_geofenceId = 1, ev_eventType = ''entry'',
       ev_latitude = ''5.00000000'', ev_longitude = ''5.00000000'', ev_timestamp = 1000,
       ev_duration = None\<rparr>]"
    by (simp add: postLocations_def schema_ex createLocation_def r Let_def a square_ex
        createGeofenceEvent_def g updateDeviceLastSeen_proj ex_db_geofences)
  show "status (fst (postLocations node_postgres 1000 (ex_report ''NaN'' ''5'') ex_db)) = 200"
    by (simp add: postLocations_def schema_ex createLocation_def r numeric_in_ex parse_float_ex
        Let_def a n)
  show "geofenceEvents (snd (postLocations node_postgres 1000 (ex_report ''NaN'' ''5'') ex_db)) = []"
    by (simp add: postLocations_def schema_ex createLocation_def r numeric_in_ex parse_float_ex
        Let_def a n updateDeviceLastSeen_proj ex_db_geofences)
  show "map loc_latitude (locations (snd (postLocations node_postgres 1000 (ex_report ''NaN'' ''5'') ex_db))) =
     [''NaN'']"
    by (simp add: postLocations_def schema_ex createLocation_def r numeric_in_ex parse_float_ex
        Let_def a n updateDeviceLastSeen_proj ex_db_geofences)
qed

text \<open>
  C8, as the specification states it, fails: a report at latitude 95 and longitude 200 is
  accepted with status 200; the row is stored, with the coordinates as the columns render
  them, and sent to the clients, and no geofence event is created.
\<close>

theorem out_of_range_counterexample:
  "status (fst (postLocations node_postgres 1000 ex_out_of_range ex_db)) = 200 \<and>
   locations (snd (postLocations node_postgres 1000 ex_out_of_range ex_db)) =
     [\<lparr>loc_id = 1, loc_deviceId = 1, loc_latitude = ''95.00000000'',
       loc_longitude = ''200.00000000'', loc_accuracy = None, loc_timestamp = 1000,
       loc_isOfflineRecord = False, loc_syncedAt = None\<rparr>] \<and>
   sent (fst (postLocations node_postgres 1000 ex_out_of_range ex_db)) =
     [Location_update
       \<lparr>loc_id = 1, loc_deviceId = 1, loc_latitude = ''95.00000000'',
         loc_longitude = ''200.00000000'', loc_accuracy = None, loc_timestamp = 1000,
         loc_isOfflineRecord = False, loc_syncedAt = None\<rparr>]"
  using post_out_of_range [OF ex_db_geofences(1), of 1000]
  by (simp add: ex_out_of_range_def ex_db_geofences)

text \<open>
  C8, amended. A report whose latitude or longitude is missing, or is not a string, is
  rejected by the schema before anything is stored or evaluated: the answer is status 400,
  nothing is broadcast and the database is unchanged. And whenever the answer is 400 the
  database is unchanged. The schema does not look at the range of the coordinates.
\<close>

theorem malformed_report_rejected:
  "((\<forall>s. getProp ''latitude'' body \<noteq> Some (JString s)) \<or>
    (\<forall>s. getProp ''longitude'' body \<noteq> Some (JString s))
      \<longrightarrow> postLocations rd now body d = (\<lparr>status = 400, sent = []\<rparr>, d)) \<and>
   (status (fst (postLocations rd now body d)) = 400 \<longrightarrow> snd (postLocations rd now body d) = d)"
proof -
  have a: "postLocations rd now body d = (\<lparr>status = 400, sent = []\<rparr>, d)"
    if "(\<forall>s. getProp ''latitude'' body \<noteq> Some (JString s)) \<or>
        (\<forall>s. getProp ''longitude'' body \<noteq> Some (JString s))"
    using schema_needs_strings [OF that] by (simp add: postLocations_def)
  have b: "snd (postLocations rd now body d) = d" if s: "status (fst (postLocations rd now body d)) = 400"
  proof (cases "insertLocationSchema body")
    case (Inl e)
    then show ?thesis by (simp add: postLocations_def)
  next
    case (Inr ld)
    show ?thesis
    proof (cases "createLocation rd now ld d")
      case (Inl e)
      then show ?thesis using s Inr by (simp add: postLocations_def)
    next
      case cl: (Inr x)
      obtain loc d1 where x: "x = (loc, d1)" by (cases x)
      let ?d2 = "updateDeviceLastSeen now (il_deviceId ld) d1"
      obtain r msgs d3 where cg: "checkGeofences rd now ld (getActiveGeofences now ?d2) ?d2 = (r, msgs, d3)"
        by (cases "checkGeofences rd now ld (getActiveGeofences now ?d2) ?d2") auto
      show ?thesis
        using s Inr cl x cg by (cases r) (simp_all add: postLocations_def Let_def)
    qed
  qed
  show ?thesis using a b by blast
qed

theorem malformed_report_rejected_witness:
  "getProp ''latitude'' ex_no_latitude = None \<and>
   postLocations node_postgres 1000 ex_no_latitude ex_db = (\<lparr>status = 400, sent = []\<rparr>, ex_db) \<and>
   status (fst (postLocations node_postgres 1000 ex_no_latitude ex_db)) = 400 \<and>
   snd (postLocations node_postgres 1000 ex_no_latitude ex_db) = ex_db"
proof -
  have n: "getProp ''latitude'' ex_no_latitude = None"
    by (simp add: ex_no_latitude_def)
  then have "\<forall>s. getProp ''latitude'' ex_no_latitude \<noteq> Some (JString s)"
    by simp
  then show ?thesis
    using malformed_report_rejected [of ex_no_latitude node_postgres 1000 ex_db] n by simp
qed

section \<open>The battery route\<close>

text \<open>
  C9. \<open>PUT /api/devices/:id/battery\<close> answers 400 exactly when the battery level is not a
  number or lies outside 0 to 100, and then the database is unchanged. Whenever it answers
  200, every device with the given id has its battery level set to the given value and its
  \<open>lastSeen\<close> set to the current time, and the other devices are as before.
\<close>

theorem battery_update:
  "(status (fst (putDeviceBattery now i batteryLevel d)) = 400
      \<longleftrightarrow> (\<forall>b. batteryLevel = Some (JNumber b) \<longrightarrow> b < 0 \<or> 100 < b)) \<and>
   (status (fst (putDeviceBattery now i batteryLevel d)) = 400
      \<longrightarrow> snd (putDeviceBattery now i batteryLevel d) = d) \<and>
   (status (fst (putDeviceBattery now i batteryLevel d)) = 200
      \<longrightarrow> (\<exists>n b. i = Some n \<and> batteryLevel = Some (JNumber b) \<and> of_int \<lfloor>b\<rfloor> = b \<and>
                 devices (snd (putDeviceBattery now i batteryLevel d)) =
                   map (\<lambda>dev. if dev_id dev = n
                              then dev\<lparr>dev_batteryLevel := Some \<lfloor>b\<rfloor>, dev_lastSeen := Some now\<rparr>
                              else dev)
                       (devices d)))"
  by (auto simp: putDeviceBattery_def updateDeviceBattery_def
           split: option.splits json.splits if_splits sum.splits)

theorem battery_update_witness:
  "status (fst (putDeviceBattery 1000 (Some 1) (Some (JNumber 50)) ex_db)) = 200 \<and>
   map dev_batteryLevel (devices (snd (putDeviceBattery 1000 (Some 1) (Some (JNumber 50)) ex_db))) = [Some 50] \<and>
   map dev_lastSeen (devices (snd (putDeviceBattery 1000 (Some 1) (Some (JNumber 50)) ex_db))) = [Some 1000] \<and>
   status (fst (putDeviceBattery 1000 (Some 1) (Some (JNumber 101)) ex_db)) = 400 \<and>
   snd (putDeviceBattery 1000 (Some 1) (Some (JNumber 101)) ex_db) = ex_db"
proof -
  have s: "status (fst (putDeviceBattery 1000 (Some 1) (Some (JNumber 50)) ex_db)) = 200"
    by (simp add: putDeviceBattery_def updateDeviceBattery_def)
  have t: "status (fst (putDeviceBattery 1000 (Some 1) (Some (JNumber 101)) ex_db)) = 400"
    by (simp add: putDeviceBattery_def)
  show ?thesis
    using battery_update [of 1000 "Some 1" "Some (JNumber 50)" ex_db]
      battery_update [of 1000 "Some 1" "Some (JNumber 101)" ex_db] s t
    by (auto simp: ex_db_def ex_device_def)
qed

end
